theory Spec2Isabelle
  imports Complex_Main "HOL-Library.Word"
begin

section \<open>Values shared by the whole simulator\<close>

text \<open>
  Errors of the Python program, as values.  \<open>LostParticle pos\<close> is the diagnostic of
  \<open>set_cell\<close>: the text printed before \<open>sys.exit()\<close> holds the position and nothing else.
  \<open>NotAReal\<close> marks the places where the floats of the program leave the real numbers
  (\<open>inf\<close>, \<open>nan\<close>, a complex root): the program goes on with such a value, the
  real-valued model stops there.
\<close>

datatype point = Point (px: real) (py: real) (pz: real)

datatype error =
    LostParticle point
  | IndexError
  | TypeError
  | AttributeError
  | UnboundLocalError
  | ZeroDivisionError
  | NotAReal

text \<open>Modelled from the spec: \<open>mcdc.point.Point\<close> is not among the sources; the tracker
  uses it as a vector, \<open>pos += dir \<cdot> d\<close>.\<close>

definition point_add :: "point \<Rightarrow> point \<Rightarrow> point" where
  "point_add a b = Point (px a + px b) (py a + py b) (pz a + pz b)"

definition point_scale :: "point \<Rightarrow> real \<Rightarrow> point" where
  "point_scale a d = Point (px a * d) (py a * d) (pz a * d)"

text \<open>Floats together with \<open>np.inf\<close> (\<open>INF\<close> of the census grid, the initial
  \<open>d_surf\<close>).\<close>

datatype xreal = Fin real | PInf

instantiation xreal :: linorder
begin

fun less_eq_xreal :: "xreal \<Rightarrow> xreal \<Rightarrow> bool" where
  "less_eq_xreal (Fin a) (Fin b) = (a \<le> b)"
| "less_eq_xreal (Fin a) PInf = True"
| "less_eq_xreal PInf (Fin b) = False"
| "less_eq_xreal PInf PInf = True"

fun less_xreal :: "xreal \<Rightarrow> xreal \<Rightarrow> bool" where
  "less_xreal (Fin a) (Fin b) = (a < b)"
| "less_xreal (Fin a) PInf = True"
| "less_xreal PInf (Fin b) = False"
| "less_xreal PInf PInf = False"

instance
proof
  fix x y z :: xreal
  show "(x < y) = (x \<le> y \<and> \<not> y \<le> x)"
    by (cases x; cases y) auto
  show "x \<le> x"
    by (cases x) auto
  show "x \<le> y \<Longrightarrow> y \<le> z \<Longrightarrow> x \<le> z"
    by (cases x; cases y; cases z) auto
  show "x \<le> y \<Longrightarrow> y \<le> x \<Longrightarrow> x = y"
    by (cases x; cases y) auto
  show "x \<le> y \<or> y \<le> x"
    by (cases x; cases y) auto
qed

end

text \<open>Modelled from the spec: \<open>mcdc.constant\<close> is not among the sources.  The spec
  gives \<open>\<epsilon>_kick = 1e-10\<close> for \<open>SMALL\<close> and \<open>\<epsilon> = 1e-20\<close> for \<open>VERY_SMALL\<close>;
  \<open>INF\<close> (here \<open>INFTY\<close>, the name being taken) is the \<open>+\<infinity>\<close> that ends the
  census grid.\<close>

definition SMALL :: real where
  "SMALL = 1 / 10 ^ 10"

definition VERY_SMALL :: real where
  "VERY_SMALL = 1 / 10 ^ 20"

definition INFTY :: xreal where
  "INFTY = PInf"

datatype event = EVENT_COLLISION | EVENT_SURFACE | EVENT_CENSUS

text \<open>\<open>xs[i]\<close> of Python with a natural index: out of range raises.\<close>

definition index :: "'a list \<Rightarrow> nat \<Rightarrow> error + 'a" where
  "index xs i = (if i < length xs then Inr (xs ! i) else Inl IndexError)"


section \<open>The random number generator\<close>

text \<open>
  Modelled from the spec: \<open>mcdc.random.RandomLCG\<close> is not among the sources.  The spec
  (4.1) gives a 63-bit linear congruential generator with fixed multiplier and increment;
  \<open>next()\<close> advances the state by one and returns \<open>state / mod\<close>;
  \<open>skip_ahead(n, rebase)\<close> advances by the closed form \<open>(g^n, c\<cdot>(g^n - 1)/(g - 1))\<close>
  from the base seed, history \<open>n\<close> lying \<open>n\<close> strides after the base, and with
  \<open>rebase\<close> the resulting state becomes the new base seed.
\<close>

record RandomLCG =
  seed_base :: "63 word"
  rng_seed :: "63 word"
  lcg_g :: "63 word"
  lcg_c :: "63 word"
  lcg_stride :: nat

definition lcg_next :: "63 word \<Rightarrow> 63 word \<Rightarrow> 63 word \<Rightarrow> 63 word" where
  "lcg_next a c s = a * s + c"

text \<open>\<open>geom a n = 1 + a + ... + a^(n-1)\<close>, the quotient \<open>(a^n - 1)/(a - 1)\<close> of the
  closed form, written without a division.\<close>

primrec geom :: "63 word \<Rightarrow> nat \<Rightarrow> 63 word" where
  "geom a 0 = 0"
| "geom a (Suc n) = 1 + a * geom a n"

definition lcg_advance :: "63 word \<Rightarrow> 63 word \<Rightarrow> nat \<Rightarrow> 63 word \<Rightarrow> 63 word" where
  "lcg_advance a c n s = a ^ n * s + c * geom a n"

definition rng_call :: "RandomLCG \<Rightarrow> real \<times> RandomLCG" where
  "rng_call r =
     (let s = lcg_next (lcg_g r) (lcg_c r) (rng_seed r)
      in (real (unat s) / 2 ^ 63, r\<lparr>rng_seed := s\<rparr>))"

definition skip_ahead :: "nat \<Rightarrow> bool \<Rightarrow> RandomLCG \<Rightarrow> RandomLCG" where
  "skip_ahead n rebase r =
     (let s = lcg_advance (lcg_g r) (lcg_c r) (n * lcg_stride r) (seed_base r)
      in r\<lparr>rng_seed := s, seed_base := (if rebase then s else seed_base r)\<rparr>)"

text \<open>Code that is not among the sources and reaches the generator only through
  \<open>rng()\<close> (a source's \<open>get_particle\<close>, a population control technique) is given the
  draws to come as a function of their rank, and says how many it took.\<close>

definition rng_stream :: "RandomLCG \<Rightarrow> nat \<Rightarrow> real" where
  "rng_stream r k = real (unat (lcg_advance (lcg_g r) (lcg_c r) (Suc k) (rng_seed r))) / 2 ^ 63"

definition rng_consume :: "nat \<Rightarrow> RandomLCG \<Rightarrow> RandomLCG" where
  "rng_consume n r = r\<lparr>rng_seed := lcg_advance (lcg_g r) (lcg_c r) n (rng_seed r)\<rparr>"


section \<open>Materials, surfaces, cells and particles\<close>

record material =
  SigmaT :: "real list"
  SigmaC :: "real list"
  SigmaS :: "real list"
  SigmaF :: "real list"
  nu :: "real list"
  SigmaS_diff :: "real list list"
  SigmaF_diff :: "real list list"

text \<open>The geometry (\<open>mcdc.geometry\<close>) is not among the sources.  A surface is the
  provider the tracker calls: its \<open>distance(pos, dir)\<close>, and its boundary condition, one
  of the three kinds of the input decks, with the normal a reflection needs.  A cell is
  its surface list, its material and its \<open>test_point\<close>.\<close>

datatype bc_kind = Vacuum | Reflective | Transmission

record surface =
  surf_distance :: "point \<Rightarrow> point \<Rightarrow> xreal"
  surf_normal :: "point \<Rightarrow> point"
  surf_bc :: bc_kind

record cell =
  surfaces :: "surface list"
  material :: material
  test_point :: "point \<Rightarrow> bool"

record particle =
  pos :: point
  dir :: point
  g :: nat
  time :: real
  wgt :: real
  alive :: bool
  cell :: "cell option"
  time_idx :: "nat option"
  surface :: "surface option"
  speed :: real
  distance :: real
  pos_old :: point
  g_old :: nat
  time_old :: real
  wgt_old :: real
  cell_old :: "cell option"

text \<open>Modelled from the spec: \<open>mcdc.particle.Particle\<close> is not among the sources.  The
  constructor takes \<open>(pos, dir, g, time, wgt, cell, time_idx)\<close>; a new particle is alive,
  on no surface, and has travelled no distance.  The shadow slot holds
  \<open>(w, g, cell, t, pos)\<close> as captured at step entry; \<open>reset_record\<close> puts the distance
  of the step back to zero; a copy is a new particle of the same seven values.\<close>

definition Particle ::
  "point \<Rightarrow> point \<Rightarrow> nat \<Rightarrow> real \<Rightarrow> real \<Rightarrow> cell option \<Rightarrow> nat option \<Rightarrow> particle" where
  "Particle p d gr t w c ti =
     \<lparr>pos = p, dir = d, g = gr, time = t, wgt = w, alive = True, cell = c, time_idx = ti,
      surface = None, speed = 0, distance = 0,
      pos_old = p, g_old = gr, time_old = t, wgt_old = w, cell_old = c\<rparr>"

definition save_previous_state :: "particle \<Rightarrow> particle" where
  "save_previous_state P =
     P\<lparr>pos_old := pos P, g_old := g P, time_old := time P, wgt_old := wgt P,
       cell_old := cell P\<rparr>"

definition reset_record :: "particle \<Rightarrow> particle" where
  "reset_record P = P\<lparr>distance := 0\<rparr>"

definition create_copy :: "particle \<Rightarrow> particle" where
  "create_copy P = Particle (pos P) (dir P) (g P) (time P) (wgt P) (cell P) (time_idx P)"

text \<open>Modelled from the spec: the boundary conditions (6, surface contract).  Vacuum sets
  \<open>alive = false\<close>; reflective reflects the direction about the surface normal at the
  current position; transmission does nothing.\<close>

definition reflect :: "point \<Rightarrow> point \<Rightarrow> point" where
  "reflect d n =
     (let dn = px d * px n + py d * py n + pz d * pz n
      in point_add d (point_scale n (- 2 * dn)))"

definition apply_bc :: "surface \<Rightarrow> particle \<Rightarrow> particle" where
  "apply_bc Sf P =
     (case surf_bc Sf of
        Vacuum \<Rightarrow> P\<lparr>alive := False\<rparr>
      | Reflective \<Rightarrow> P\<lparr>dir := reflect (dir P) (surf_normal Sf (pos P))\<rparr>
      | Transmission \<Rightarrow> P)"

text \<open>Modelled from the spec: \<open>DistPointIsotropic.sample()\<close> (4.2) draws \<open>\<mu> = 2u - 1\<close>
  and \<open>\<phi> = 2\<pi>u'\<close> and returns \<open>(\<surd>(1 - \<mu>\<^sup>2) cos \<phi>, \<surd>(1 - \<mu>\<^sup>2) sin \<phi>, \<mu>)\<close>.\<close>

definition isotropic_sample :: "RandomLCG \<Rightarrow> point \<times> RandomLCG" where
  "isotropic_sample r =
     (let (u, r1) = rng_call r;
          mu = 2 * u - 1;
          (u', r2) = rng_call r1;
          phi = 2 * pi * u'
      in (Point (sqrt (1 - mu\<^sup>2) * cos phi) (sqrt (1 - mu\<^sup>2) * sin phi) mu, r2))"


section \<open>The simulator state\<close>

text \<open>A source (\<open>mcdc.particle\<close>, not among the sources) has its probability and its
  \<open>get_particle\<close>, which reads the draws to come and says how many it took.\<close>

record source =
  prob :: real
  get_particle :: "(nat \<Rightarrow> real) \<Rightarrow> particle \<times> nat"

text \<open>\<open>mcdc.mpi\<close> is not among the sources: the work of this rank
  (\<open>work_start\<close>, \<open>work_size\<close>, \<open>work_size_total\<close>, as \<open>distribute_work\<close> leaves
  them), whether it is the master, what the other ranks add to the reduction of
  \<open>nuSigmaF_sum\<close> in each iteration, and \<open>normalize_weight\<close>.\<close>

record mpi_env =
  work_start :: nat
  work_size :: nat
  work_size_total :: nat
  master :: bool
  peers_nuSigmaF :: "nat \<Rightarrow> real"
  normalize_weight :: "particle list \<Rightarrow> real \<Rightarrow> particle list"

definition allreduce :: "mpi_env \<Rightarrow> nat \<Rightarrow> real \<Rightarrow> real" where
  "allreduce m i own = own + peers_nuSigmaF m i"

text \<open>\<open>bank_fission\<close> is an alias of one of two lists; \<open>None\<close> before \<open>run\<close> sets it.\<close>

datatype bank_ref = Bank_stored | Bank_history

text \<open>The fields of \<open>Simulator\<close>, with the two module globals the methods use:
  \<open>mcdc.random.rng\<close> and the state of \<open>mcdc.mpi\<close>.  The tallies
  (\<open>mcdc.tally\<close>, not among the sources) keep their accumulators to themselves and
  are left out, as are the timer and the output file.  A population control technique
  (\<open>mcdc.pct\<close>, not among the sources) takes the bank, \<open>N_hist\<close> and the draws to
  come, and returns the new bank and the number of draws it took.\<close>

record simulator =
  speeds :: "real list"
  cells :: "cell list"
  sources :: "source list"
  N_hist :: real
  seed :: "63 word"
  stride :: nat
  mode_eigenvalue :: bool
  mode_k :: bool
  k_eff :: real
  N_iter :: nat
  i_iter :: nat
  pct :: "particle list \<Rightarrow> real \<Rightarrow> (nat \<Rightarrow> real) \<Rightarrow> particle list \<times> nat"
  census_time :: "xreal list"
  bank_stored :: "particle list"
  bank_source :: "particle list"
  bank_history :: "particle list"
  bank_fission :: "bank_ref option"
  nuSigmaF_sum :: real
  nuSigmaF_buff :: real
  k_mean :: "real list"
  rng :: RandomLCG
  mpi :: mpi_env


section \<open>Particle transports\<close>

text \<open>\<open>P.cell.material.F[P.g]\<close>: no cell raises, a group out of range raises.\<close>

definition xs_lookup :: "(material \<Rightarrow> 'a list) \<Rightarrow> particle \<Rightarrow> error + 'a" where
  "xs_lookup F P =
     (case cell P of
        None \<Rightarrow> Inl AttributeError
      | Some C \<Rightarrow> index (F (material C)) (g P))"

text \<open>\<open>-np.log(xi)/SigmaT\<close> in floats: \<open>xi = 0\<close> gives \<open>inf\<close> over a positive or zero
  \<open>SigmaT\<close>, and a zero \<open>SigmaT\<close> gives \<open>inf\<close> too.\<close>

definition get_collision_distance :: "simulator \<Rightarrow> particle \<Rightarrow> error + (xreal \<times> simulator)" where
  "get_collision_distance S P =
     (let (xi, r) = rng_call (rng S) in
      case xs_lookup SigmaT P of
        Inl e \<Rightarrow> Inl e
      | Inr sigT0 \<Rightarrow>
         (let sigT = sigT0 + VERY_SMALL in
          if xi = 0 then (if 0 \<le> sigT then Inr (PInf, S\<lparr>rng := r\<rparr>) else Inl NotAReal)
          else if sigT = 0 then Inr (PInf, S\<lparr>rng := r\<rparr>)
          else Inr (Fin (- ln xi / sigT), S\<lparr>rng := r\<rparr>)))"

fun surface_scan :: "point \<Rightarrow> point \<Rightarrow> surface list \<Rightarrow> surface option \<times> xreal \<Rightarrow> surface option \<times> xreal" where
  "surface_scan p d [] acc = acc"
| "surface_scan p d (surf # rest) (S, d_surf) =
     (let dd = surf_distance surf p d
      in surface_scan p d rest (if dd < d_surf then (Some surf, dd) else (S, d_surf)))"

definition surface_distance :: "particle \<Rightarrow> error + (surface option \<times> xreal)" where
  "surface_distance P =
     (case cell P of
        None \<Rightarrow> Inl AttributeError
      | Some C \<Rightarrow> Inr (surface_scan (pos P) (dir P) (surfaces C) (None, PInf)))"

text \<open>\<open>P.speed*(t_census - P.time)\<close>: with \<open>t_census = INF\<close> the product is \<open>inf\<close> for a
  positive speed, \<open>nan\<close> for a zero speed (no distance is greater than it, as with
  \<open>inf\<close>) and \<open>-inf\<close> for a negative one.\<close>

definition census_distance :: "simulator \<Rightarrow> particle \<Rightarrow> error + xreal" where
  "census_distance S P =
     (case time_idx P of
        None \<Rightarrow> Inl TypeError
      | Some k \<Rightarrow>
         (case index (census_time S) k of
            Inl e \<Rightarrow> Inl e
          | Inr t_census \<Rightarrow>
             (case t_census of
                Fin tc \<Rightarrow> Inr (Fin (speed P * (tc - time P)))
              | PInf \<Rightarrow> if speed P < 0 then Inl NotAReal else Inr PInf)))"

text \<open>Lines 347 to 354: the choice of the event, on any linear order.\<close>

definition choose_event :: "'a::linorder \<Rightarrow> 'a \<Rightarrow> 'a \<Rightarrow> event \<times> 'a" where
  "choose_event d_coll d_surf d_census =
     (let (ev, d_move) = (EVENT_COLLISION, d_coll);
          (ev, d_move) = (if d_move > d_surf then (EVENT_SURFACE, d_surf) else (ev, d_move));
          (ev, d_move) = (if d_move > d_census then (EVENT_CENSUS, d_census) else (ev, d_move))
      in (ev, d_move))"

text \<open>\<open>d/P.speed\<close> with a zero speed is \<open>inf\<close> or \<open>nan\<close>.\<close>

definition move_particle :: "particle \<Rightarrow> real \<Rightarrow> error + particle" where
  "move_particle P d =
     (if speed P = 0 then Inl NotAReal
      else Inr (P\<lparr>pos := point_add (pos P) (point_scale (dir P) d),
                  time := time P + d / speed P,
                  distance := distance P + d\<rparr>))"

definition set_cell :: "simulator \<Rightarrow> particle \<Rightarrow> error + particle" where
  "set_cell S P =
     (case find (\<lambda>c. test_point c (pos P)) (cells S) of
        None \<Rightarrow> Inl (LostParticle (pos P))
      | Some C \<Rightarrow> Inr (P\<lparr>cell := Some C\<rparr>))"

definition surface_hit :: "simulator \<Rightarrow> particle \<Rightarrow> error + particle" where
  "surface_hit S P =
     (case surface P of
        None \<Rightarrow> Inl AttributeError
      | Some Sf \<Rightarrow>
         (case move_particle (apply_bc Sf P) SMALL of
            Inl e \<Rightarrow> Inl e
          | Inr P1 \<Rightarrow> if alive P1 then set_cell S P1 else Inr P1))"


section \<open>Collisions\<close>

datatype reaction = Scattering | Fission | Capture

text \<open>Lines 465 to 475: which of the three branches a collision takes.\<close>

definition collision_branch :: "real \<Rightarrow> real \<Rightarrow> real \<Rightarrow> reaction" where
  "collision_branch sigS sigF xi =
     (if sigS > xi then Scattering
      else if sigS + sigF > xi then Fission
      else Capture)"

definition collision_capture :: "particle \<Rightarrow> particle" where
  "collision_capture P = P\<lparr>alive := False\<rparr>"

text \<open>The loop \<open>for g_out in range(G): tot += diff[g_out]; if tot > xi: break\<close>, and the
  value of \<open>g_out\<close> after it: the index of the break, the last index without one, and
  no value at all when \<open>G = 0\<close>.\<close>

fun group_scan :: "real \<Rightarrow> real \<Rightarrow> nat \<Rightarrow> real list \<Rightarrow> nat" where
  "group_scan xi tot i [] = i"
| "group_scan xi tot i [s] = i"
| "group_scan xi tot i (s # t # rest) =
     (if tot + s > xi then i else group_scan xi (tot + s) (Suc i) (t # rest))"

definition sample_group :: "real list \<Rightarrow> real \<Rightarrow> error + nat" where
  "sample_group diff xi =
     (case diff of [] \<Rightarrow> Inl UnboundLocalError | _ \<Rightarrow> Inr (group_scan xi 0 0 diff))"

text \<open>A negative radicand gives a complex number or \<open>nan\<close>; a zero \<open>B\<close> makes
  \<open>Ac/B\<close> a division by zero.\<close>

definition scatter :: "simulator \<Rightarrow> particle \<Rightarrow> real \<Rightarrow> error + (simulator \<times> particle)" where
  "scatter S P mu =
     (let (u, r) = rng_call (rng S);
          azi = 2 * pi * u;
          cos_azi = cos azi;
          sin_azi = sin azi;
          d = dir P
      in if 1 - mu\<^sup>2 < 0 then Inl NotAReal
         else
          (let Ac = sqrt (1 - mu\<^sup>2) in
           if pz d \<noteq> 1 then
             (if 1 - (pz d)\<^sup>2 < 0 then Inl NotAReal
              else
               (let B = sqrt (1 - (pz d)\<^sup>2) in
                if B = 0 then Inl ZeroDivisionError
                else
                 (let C = Ac / B;
                      fx = px d * mu + (px d * pz d * cos_azi - py d * sin_azi) * C;
                      fy = py d * mu + (py d * pz d * cos_azi + px d * sin_azi) * C;
                      fz = pz d * mu - cos_azi * Ac * B
                  in Inr (S\<lparr>rng := r\<rparr>, P\<lparr>dir := Point fx fy fz\<rparr>))))
           else
             (if 1 - (py d)\<^sup>2 < 0 then Inl NotAReal
              else
               (let B = sqrt (1 - (py d)\<^sup>2) in
                if B = 0 then Inl ZeroDivisionError
                else
                 (let C = Ac / B;
                      fx = px d * mu + (px d * py d * cos_azi - pz d * sin_azi) * C;
                      fz = pz d * mu + (pz d * py d * cos_azi + px d * sin_azi) * C;
                      fy = py d * mu - cos_azi * Ac * B
                  in Inr (S\<lparr>rng := r\<rparr>, P\<lparr>dir := Point fx fy fz\<rparr>))))))"

definition collision_scattering :: "simulator \<Rightarrow> particle \<Rightarrow> error + (simulator \<times> particle)" where
  "collision_scattering S P =
     (case xs_lookup SigmaS_diff P of
        Inl e \<Rightarrow> Inl e
      | Inr sigS_diff \<Rightarrow>
         (case xs_lookup SigmaS P of
            Inl e \<Rightarrow> Inl e
          | Inr sigS \<Rightarrow>
             (let (u, r1) = rng_call (rng S);
                  xi = u * sigS
              in case sample_group sigS_diff xi of
                   Inl e \<Rightarrow> Inl e
                 | Inr g_out \<Rightarrow>
                    (let (u2, r2) = rng_call r1;
                         mu0 = 2 * u2 - 1
                     in scatter (S\<lparr>rng := r2\<rparr>) (P\<lparr>g := g_out\<rparr>) mu0))))"

definition bank_fission_append :: "simulator \<Rightarrow> particle \<Rightarrow> error + simulator" where
  "bank_fission_append S Q =
     (case bank_fission S of
        None \<Rightarrow> Inl AttributeError
      | Some Bank_stored \<Rightarrow> Inr (S\<lparr>bank_stored := bank_stored S @ [Q]\<rparr>)
      | Some Bank_history \<Rightarrow> Inr (S\<lparr>bank_history := bank_history S @ [Q]\<rparr>))"

text \<open>The body of \<open>for n in range(N)\<close> of \<open>collision_fission\<close>, \<open>N\<close> times.\<close>

fun fission_loop :: "nat \<Rightarrow> real list \<Rightarrow> real \<Rightarrow> simulator \<Rightarrow> particle \<Rightarrow> error + simulator" where
  "fission_loop 0 sigF_diff sigF S P = Inr S"
| "fission_loop (Suc n) sigF_diff sigF S P =
     (let (u, r1) = rng_call (rng S);
          xi = u * sigF
      in case sample_group sigF_diff xi of
           Inl e \<Rightarrow> Inl e
         | Inr g_out \<Rightarrow>
            (let (d, r2) = isotropic_sample r1;
                 Q = Particle (pos P) d g_out (time P) (wgt P) (cell P) (time_idx P)
             in case bank_fission_append (S\<lparr>rng := r2\<rparr>) Q of
                  Inl e \<Rightarrow> Inl e
                | Inr S' \<Rightarrow> fission_loop n sigF_diff sigF S' P))"

text \<open>\<open>floor(nu/self.k_eff + rng())\<close>: a zero \<open>k_eff\<close> makes the quotient infinite and
  \<open>floor\<close> raises.\<close>

definition fission_N :: "real \<Rightarrow> real \<Rightarrow> real \<Rightarrow> int" where
  "fission_N nu0 k u = \<lfloor>nu0 / k + u\<rfloor>"

definition collision_fission :: "simulator \<Rightarrow> particle \<Rightarrow> error + (simulator \<times> particle)" where
  "collision_fission S P =
     (let P1 = P\<lparr>alive := False\<rparr> in
      case xs_lookup SigmaF_diff P1 of
        Inl e \<Rightarrow> Inl e
      | Inr sigF_diff \<Rightarrow>
         (case xs_lookup SigmaF P1 of
            Inl e \<Rightarrow> Inl e
          | Inr sigF \<Rightarrow>
             (case xs_lookup nu P1 of
                Inl e \<Rightarrow> Inl e
              | Inr nu0 \<Rightarrow>
                 if k_eff S = 0 then Inl ZeroDivisionError
                 else
                  (let (u, r) = rng_call (rng S);
                       N = fission_N nu0 (k_eff S) u
                   in case fission_loop (nat N) sigF_diff sigF (S\<lparr>rng := r\<rparr>) P1 of
                        Inl e \<Rightarrow> Inl e
                      | Inr S' \<Rightarrow> Inr (S', P1)))))"

definition collision :: "simulator \<Rightarrow> particle \<Rightarrow> error + (simulator \<times> particle)" where
  "collision S P =
     (case xs_lookup SigmaT P of
        Inl e \<Rightarrow> Inl e
      | Inr sigT \<Rightarrow>
         (case xs_lookup SigmaC P of
            Inl e \<Rightarrow> Inl e
          | Inr sigC \<Rightarrow>
             (case xs_lookup SigmaS P of
                Inl e \<Rightarrow> Inl e
              | Inr sigS \<Rightarrow>
                 (case xs_lookup SigmaF P of
                    Inl e \<Rightarrow> Inl e
                  | Inr sigF \<Rightarrow>
                     (let (u, r) = rng_call (rng S);
                          xi = u * sigT;
                          S1 = S\<lparr>rng := r\<rparr>
                      in case collision_branch sigS sigF xi of
                           Scattering \<Rightarrow> collision_scattering S1 P
                         | Fission \<Rightarrow> collision_fission S1 P
                         | Capture \<Rightarrow> Inr (S1, collision_capture P))))))"


section \<open>The particle loop\<close>

text \<open>Lines 378 to 389: the census event.\<close>

definition census_event :: "simulator \<Rightarrow> particle \<Rightarrow> error + (simulator \<times> particle)" where
  "census_event S P =
     (case move_particle P (SMALL * speed P) of
        Inl e \<Rightarrow> Inl e
      | Inr P1 \<Rightarrow>
         (case time_idx P1 of
            None \<Rightarrow> Inl TypeError
          | Some k \<Rightarrow>
             (let P2 = P1\<lparr>time_idx := Some (k + 1)\<rparr>;
                  S1 = (if k + 1 < length (census_time S)
                        then S\<lparr>bank_stored := bank_stored S @ [create_copy P2]\<rparr>
                        else S)
              in Inr (S1, P2\<lparr>alive := False\<rparr>))))"

text \<open>Lines 367 to 389: the dispatch on the event; \<open>Sf\<close> is the nearest surface found
  by \<open>surface_distance\<close>.\<close>

definition perform_event ::
  "event \<Rightarrow> surface option \<Rightarrow> simulator \<Rightarrow> particle \<Rightarrow> error + (simulator \<times> particle)" where
  "perform_event ev Sf S P =
     (case ev of
        EVENT_COLLISION \<Rightarrow> collision S P
      | EVENT_SURFACE \<Rightarrow>
         (case surface_hit S (P\<lparr>surface := Sf\<rparr>) of
            Inl e \<Rightarrow> Inl e
          | Inr P1 \<Rightarrow> Inr (S, P1))
      | EVENT_CENSUS \<Rightarrow> census_event S P)"

text \<open>Lines 399 to 406: the eigenvalue accumulator.\<close>

definition score_eigenvalue :: "simulator \<Rightarrow> particle \<Rightarrow> error + simulator" where
  "score_eigenvalue S P =
     (if mode_eigenvalue S then
        (case cell_old P of
           None \<Rightarrow> Inl AttributeError
         | Some C \<Rightarrow>
            (case index (nu (material C)) (g_old P) of
               Inl e \<Rightarrow> Inl e
             | Inr nu0 \<Rightarrow>
                (case index (SigmaF (material C)) (g_old P) of
                   Inl e \<Rightarrow> Inl e
                 | Inr sigF \<Rightarrow>
                    (let nuSigmaF = nu0 * sigF
                     in Inr (S\<lparr>nuSigmaF_sum := nuSigmaF_sum S + wgt_old P * distance P * nuSigmaF\<rparr>)))))
      else Inr S)"

text \<open>Lines 318 to 413: one turn of \<open>while P.alive\<close>.  A move by an infinite distance
  leaves the reals.\<close>

definition particle_iter :: "simulator \<Rightarrow> particle \<Rightarrow> error + (simulator \<times> particle)" where
  "particle_iter S P =
     (let P0 = save_previous_state P in
      case index (speeds S) (g P0) of
        Inl e \<Rightarrow> Inl e
      | Inr v \<Rightarrow>
         (let P1 = P0\<lparr>speed := v\<rparr> in
          case get_collision_distance S P1 of
            Inl e \<Rightarrow> Inl e
          | Inr (d_coll, S1) \<Rightarrow>
             (case surface_distance P1 of
                Inl e \<Rightarrow> Inl e
              | Inr (Sf, d_surf) \<Rightarrow>
                 (case census_distance S1 P1 of
                    Inl e \<Rightarrow> Inl e
                  | Inr d_census \<Rightarrow>
                     (let (ev, d_move) = choose_event d_coll d_surf d_census in
                      case d_move of
                        PInf \<Rightarrow> Inl NotAReal
                      | Fin d \<Rightarrow>
                         (case move_particle P1 d of
                            Inl e \<Rightarrow> Inl e
                          | Inr P2 \<Rightarrow>
                             (case perform_event ev Sf S1 P2 of
                                Inl e \<Rightarrow> Inl e
                              | Inr (S2, P3) \<Rightarrow>
                                 (case score_eigenvalue S2 P3 of
                                    Inl e \<Rightarrow> Inl e
                                  | Inr S3 \<Rightarrow> Inr (S3, reset_record P3)))))))))"


section \<open>The history loop and the source loop\<close>

text \<open>The loops of the program are run on fuel: \<open>Out_of_fuel\<close> is the answer when the
  fuel does not reach the end of the loop, \<open>Fatal e\<close> when the program stops on \<open>e\<close>.\<close>

datatype 'a outcome = Done 'a | Fatal error | Out_of_fuel

fun loop_particle :: "nat \<Rightarrow> simulator \<Rightarrow> particle \<Rightarrow> (simulator \<times> particle) outcome" where
  "loop_particle 0 S P = (if alive P then Out_of_fuel else Done (S, P))"
| "loop_particle (Suc n) S P =
     (if alive P then
        (case particle_iter S P of
           Inl e \<Rightarrow> Fatal e
         | Inr (S', P') \<Rightarrow> loop_particle n S' P')
      else Done (S, P))"

fun loop_history :: "nat \<Rightarrow> simulator \<Rightarrow> simulator outcome" where
  "loop_history 0 S = (if bank_history S \<noteq> [] then Out_of_fuel else Done S)"
| "loop_history (Suc n) S =
     (if bank_history S \<noteq> [] then
        (let P = last (bank_history S);
             S1 = S\<lparr>bank_history := butlast (bank_history S)\<rparr>
         in case loop_particle n S1 P of
              Done (S2, P') \<Rightarrow> loop_history n S2
            | Fatal e \<Rightarrow> Fatal e
            | Out_of_fuel \<Rightarrow> Out_of_fuel)
      else Done S)"

text \<open>Modelled from the spec: \<open>mcdc.misc.binary_search\<close> is not among the sources.  The
  spec (4.5) has it return \<open>i\<close> with \<open>grid[i] \<le> x < grid[i+1]\<close>; on a sorted grid
  that is the number of entries up to \<open>x\<close>, less one.\<close>

definition binary_search :: "real \<Rightarrow> xreal list \<Rightarrow> int" where
  "binary_search x grid = int (length (takeWhile (\<lambda>e. e \<le> Fin x) grid)) - 1"

definition set_time_idx :: "simulator \<Rightarrow> particle \<Rightarrow> error + particle" where
  "set_time_idx S P =
     (let t = time P;
          idx = nat (binary_search t (census_time S) + 1)
      in if idx = length (census_time S) then Inr (P\<lparr>alive := False, time_idx := None\<rparr>)
         else
          (case index (census_time S) idx of
             Inl e \<Rightarrow> Inl e
           | Inr tc \<Rightarrow>
              if Fin (time P) = tc then Inr (P\<lparr>time_idx := Some (idx + 1)\<rparr>)
              else Inr (P\<lparr>time_idx := Some idx\<rparr>)))"

text \<open>Lines 248 to 254: the first source whose cumulated probability passes \<open>xi\<close>.\<close>

fun pick_source :: "real \<Rightarrow> real \<Rightarrow> source list \<Rightarrow> source option" where
  "pick_source xi tot [] = None"
| "pick_source xi tot (s # rest) =
     (if xi < tot + prob s then Some s else pick_source xi (tot + prob s) rest)"

text \<open>Lines 245 to 266: the particle of history \<open>i\<close> is put on the history bank.\<close>

definition source_particle :: "nat \<Rightarrow> simulator \<Rightarrow> error + simulator" where
  "source_particle i S =
     (if bank_source S = [] then
        (let (xi, r1) = rng_call (rng S) in
         case pick_source xi 0 (sources S) of
           None \<Rightarrow> Inl AttributeError
         | Some src \<Rightarrow>
            (let (P, n) = get_particle src (rng_stream r1);
                 S1 = S\<lparr>rng := rng_consume n r1\<rparr>
             in case (if cell P = None then set_cell S1 P else Inr P) of
                  Inl e \<Rightarrow> Inl e
                | Inr P1 \<Rightarrow>
                   (case (if time_idx P1 = None \<or> time_idx P1 = Some 0
                          then set_time_idx S1 P1 else Inr P1) of
                      Inl e \<Rightarrow> Inl e
                    | Inr P2 \<Rightarrow> Inr (S1\<lparr>bank_history := bank_history S1 @ [P2]\<rparr>))))
      else
        (case index (bank_source S) i of
           Inl e \<Rightarrow> Inl e
         | Inr P \<Rightarrow> Inr (S\<lparr>bank_history := bank_history S @ [P]\<rparr>)))"

text \<open>Line 242: the generator is set to the origin of history \<open>i\<close>.\<close>

definition history_origin :: "nat \<Rightarrow> simulator \<Rightarrow> simulator" where
  "history_origin i S = S\<lparr>rng := skip_ahead i False (rng S)\<rparr>"

text \<open>Lines 240 to 269: the body of \<open>for i in range(work_size)\<close>.\<close>

definition source_iteration :: "nat \<Rightarrow> nat \<Rightarrow> simulator \<Rightarrow> simulator outcome" where
  "source_iteration fuel i S =
     (case source_particle i (history_origin i S) of
        Inl e \<Rightarrow> Fatal e
      | Inr S1 \<Rightarrow> loop_history fuel S1)"

fun loop_source_range :: "nat \<Rightarrow> nat list \<Rightarrow> simulator \<Rightarrow> simulator outcome" where
  "loop_source_range fuel [] S = Done S"
| "loop_source_range fuel (i # rest) S =
     (case source_iteration fuel i S of
        Done S' \<Rightarrow> loop_source_range fuel rest S'
      | Fatal e \<Rightarrow> Fatal e
      | Out_of_fuel \<Rightarrow> Out_of_fuel)"

text \<open>Line 237: the base seed is moved to \<open>work_start\<close>.\<close>

definition source_rebase :: "simulator \<Rightarrow> simulator" where
  "source_rebase S = S\<lparr>rng := skip_ahead (work_start (mpi S)) True (rng S)\<rparr>"

definition loop_source :: "nat \<Rightarrow> simulator \<Rightarrow> simulator outcome" where
  "loop_source fuel S =
     loop_source_range fuel [0..<work_size (mpi S)] (source_rebase S)"


section \<open>The simulation loop\<close>

text \<open>Lines 112 to 125 of \<open>run\<close>.  The multiplier and the increment of the generator
  are constants of \<open>mcdc.constant\<close>, not among the sources: the new generator keeps
  those of the \<open>rng\<close> field.  Dividing the probabilities by a zero sum raises.\<close>

definition run_setup :: "simulator \<Rightarrow> error + simulator" where
  "run_setup S =
     (let S1 = S\<lparr>rng := (rng S)\<lparr>seed_base := seed S, rng_seed := seed S,
                                 lcg_stride := stride S\<rparr>\<rparr>;
          norm = sum_list (map prob (sources S1))
      in if sources S1 \<noteq> [] \<and> norm = 0 then Inl ZeroDivisionError
         else
          (let S2 = S1\<lparr>sources := map (\<lambda>s. s\<lparr>prob := prob s / norm\<rparr>) (sources S1)\<rparr>
           in Inr (if mode_eigenvalue S2 then S2\<lparr>census_time := [INFTY]\<rparr> else S2)))"

text \<open>Lines 144 to 153: the reduction of \<open>nuSigmaF_sum\<close>, the new \<open>k_eff\<close>, the reset.
  A quotient by \<open>work_size_total = 0\<close> is \<open>inf\<close> or \<open>nan\<close>.\<close>

definition eigenvalue_closeout :: "simulator \<Rightarrow> error + simulator" where
  "eigenvalue_closeout S =
     (let buff = allreduce (mpi S) (i_iter S) (nuSigmaF_sum S) in
      if work_size_total (mpi S) = 0 then Inl NotAReal
      else
       (let S1 = S\<lparr>nuSigmaF_buff := buff, k_eff := buff / real (work_size_total (mpi S))\<rparr> in
        if master (mpi S1) \<and> \<not> i_iter S1 < length (k_mean S1) then Inl IndexError
        else
         (let S2 = (if master (mpi S1)
                    then S1\<lparr>k_mean := (k_mean S1)[i_iter S1 := k_eff S1]\<rparr> else S1)
          in Inr (S2\<lparr>nuSigmaF_sum := 0\<rparr>))))"

text \<open>Lines 161 to 185: the end test and the rotation of the banks.\<close>

definition manage_banks :: "simulator \<Rightarrow> simulator \<times> bool" where
  "manage_banks S =
     (let (S1, simulation_end) =
            (if mode_eigenvalue S
             then (S\<lparr>i_iter := i_iter S + 1\<rparr>, i_iter S + 1 = N_iter S)
             else (S, bank_stored S = []))
      in if \<not> simulation_end then
           (let S2 = (if mode_eigenvalue S1
                      then S1\<lparr>bank_stored :=
                                normalize_weight (mpi S1) (bank_stored S1) (N_hist S1)\<rparr>
                      else S1);
                S3 = S2\<lparr>rng := skip_ahead (work_size_total (mpi S2) - work_start (mpi S2))
                                   True (rng S2)\<rparr>;
                (bank, n) = pct S3 (bank_stored S3) (N_hist S3) (rng_stream (rng S3));
                S4 = S3\<lparr>rng := rng_consume n (rng S3), bank_stored := bank\<rparr>
            in (S4\<lparr>bank_source := bank_stored S4, bank_stored := []\<rparr>, False))
         else (S1\<lparr>bank_source := [], bank_stored := []\<rparr>, True))"

text \<open>Lines 130 to 185: one turn of the simulation loop.\<close>

definition run_iteration :: "nat \<Rightarrow> simulator \<Rightarrow> (simulator \<times> bool) outcome" where
  "run_iteration fuel S =
     (let S1 = S\<lparr>bank_fission :=
                   Some (if mode_eigenvalue S then Bank_stored else Bank_history)\<rparr>
      in case loop_source fuel S1 of
           Fatal e \<Rightarrow> Fatal e
         | Out_of_fuel \<Rightarrow> Out_of_fuel
         | Done S2 \<Rightarrow>
            (case (if mode_eigenvalue S2 then eigenvalue_closeout S2 else Inr S2) of
               Inl e \<Rightarrow> Fatal e
             | Inr S3 \<Rightarrow> Done (manage_banks S3)))"

fun run_loop :: "nat \<Rightarrow> simulator \<Rightarrow> simulator outcome" where
  "run_loop 0 S = Out_of_fuel"
| "run_loop (Suc n) S =
     (case run_iteration n S of
        Done (S', simulation_end) \<Rightarrow> if simulation_end then Done S' else run_loop n S'
      | Fatal e \<Rightarrow> Fatal e
      | Out_of_fuel \<Rightarrow> Out_of_fuel)"

definition run :: "nat \<Rightarrow> simulator \<Rightarrow> simulator outcome" where
  "run fuel S =
     (case run_setup S of
        Inl e \<Rightarrow> Fatal e
      | Inr S0 \<Rightarrow> run_loop fuel S0)"


section \<open>Notions used to state the results\<close>

text \<open>The \<open>k\<close>-th particle pushed by the loop of \<open>collision_fission\<close> (lines 543 to
  557) for the parent \<open>P\<close>, read off the generator state \<open>r\<close> at loop entry: turn \<open>k\<close>
  takes the draw of rank \<open>3k\<close> for the group and the two after it for the direction.\<close>

definition progeny :: "particle \<Rightarrow> real list \<Rightarrow> real \<Rightarrow> RandomLCG \<Rightarrow> nat \<Rightarrow> particle" where
  "progeny P sigF_diff sigF r k =
     Particle (pos P) (fst (isotropic_sample (rng_consume (3 * k + 1) r)))
       (group_scan (rng_stream r (3 * k) * sigF) 0 0 sigF_diff)
       (time P) (wgt P) (cell P) (time_idx P)"

text \<open>What tracking a particle leaves alone: every field of the simulator but the
  current seed of the generator, the stored and history banks and \<open>nuSigmaF_sum\<close>.\<close>

definition tracking_frame :: "simulator \<Rightarrow> simulator \<Rightarrow> bool" where
  "tracking_frame S S' \<longleftrightarrow>
     speeds S' = speeds S \<and> cells S' = cells S \<and> sources S' = sources S
     \<and> N_hist S' = N_hist S \<and> seed S' = seed S \<and> stride S' = stride S
     \<and> mode_eigenvalue S' = mode_eigenvalue S \<and> mode_k S' = mode_k S
     \<and> k_eff S' = k_eff S \<and> N_iter S' = N_iter S \<and> i_iter S' = i_iter S
     \<and> pct S' = pct S \<and> census_time S' = census_time S
     \<and> bank_source S' = bank_source S \<and> bank_fission S' = bank_fission S
     \<and> nuSigmaF_buff S' = nuSigmaF_buff S \<and> k_mean S' = k_mean S \<and> mpi S' = mpi S
     \<and> seed_base (rng S') = seed_base (rng S) \<and> lcg_g (rng S') = lcg_g (rng S)
     \<and> lcg_c (rng S') = lcg_c (rng S) \<and> lcg_stride (rng S') = lcg_stride (rng S)"


section \<open>Inputs for the worked cases\<close>

text \<open>The deck of \<open>examples/fixed-source/slab-azurv1/input.py\<close>: one group with capture,
  scatter and fission \<open>1/3\<close> each and \<open>\<nu> = 2.3\<close>, one cell between two reflective planes
  at \<open>x = \<plusminus>1e10\<close>, a census at \<open>t = 20\<close>.  A plane \<open>x = x0\<close> is hit at
  \<open>(x0 - x)/dx\<close> when that is not negative.  The generator of the worked cases has
  multiplier \<open>1\<close> and increment \<open>2^61\<close>: each draw is a quarter above the one before.\<close>

definition plane_x :: "real \<Rightarrow> bc_kind \<Rightarrow> surface" where
  "plane_x x0 kind =
     \<lparr>surf_distance = (\<lambda>p d. if px d = 0 \<or> (x0 - px p) / px d < 0 then PInf
                              else Fin ((x0 - px p) / px d)),
      surf_normal = (\<lambda>p. Point 1 0 0),
      surf_bc = kind\<rparr>"

definition azurv1_material :: material where
  "azurv1_material =
     \<lparr>SigmaT = [1], SigmaC = [1/3], SigmaS = [1/3], SigmaF = [1/3], nu = [23/10],
      SigmaS_diff = [[1/3]], SigmaF_diff = [[1/3]]\<rparr>"

definition azurv1_cell :: cell where
  "azurv1_cell =
     \<lparr>surfaces = [plane_x (- (10 ^ 10)) Reflective, plane_x (10 ^ 10) Reflective],
      material = azurv1_material,
      test_point = (\<lambda>p. - (10 ^ 10) \<le> px p \<and> px p \<le> 10 ^ 10)\<rparr>"

definition quarter_rng :: "63 word \<Rightarrow> RandomLCG" where
  "quarter_rng s =
     \<lparr>seed_base = s, rng_seed = s, lcg_g = 1, lcg_c = 2305843009213693952, lcg_stride = 4\<rparr>"

definition azurv1_sim :: simulator where
  "azurv1_sim =
     \<lparr>speeds = [1], cells = [azurv1_cell], sources = [], N_hist = 1000,
      seed = 1152921504606846976, stride = 4,
      mode_eigenvalue = False, mode_k = False, k_eff = 1, N_iter = 1, i_iter = 0,
      pct = (\<lambda>bank n draws. (bank, 0)),
      census_time = [Fin 20, PInf],
      bank_stored = [], bank_source = [], bank_history = [],
      bank_fission = Some Bank_history,
      nuSigmaF_sum = 0, nuSigmaF_buff = 0, k_mean = [],
      rng = quarter_rng 1152921504606846976,
      mpi = \<lparr>work_start = 0, work_size = 1000, work_size_total = 1000, master = True,
             peers_nuSigmaF = (\<lambda>i. 0), normalize_weight = (\<lambda>bank n. bank)\<rparr>\<rparr>"

definition azurv1_particle :: particle where
  "azurv1_particle =
     (Particle (Point 0 0 0) (Point 0 1 0) 0 0 1 (Some azurv1_cell) (Some 0))\<lparr>speed := 1\<rparr>"

text \<open>The first slab of \<open>examples/slabs/uniform_source_move/input.py\<close>: capture \<open>0.1\<close>,
  scatter \<open>0.9\<close>, a vacuum plane at \<open>x = 0\<close> and a transmission plane at \<open>x = 10\<close>; a
  particle on the vacuum plane, flying out.\<close>

definition slab_material :: material where
  "slab_material =
     \<lparr>SigmaT = [1], SigmaC = [1/10], SigmaS = [9/10], SigmaF = [0], nu = [0],
      SigmaS_diff = [[9/10]], SigmaF_diff = [[0]]\<rparr>"

definition slab_cell :: cell where
  "slab_cell =
     \<lparr>surfaces = [plane_x 0 Vacuum, plane_x 10 Transmission],
      material = slab_material,
      test_point = (\<lambda>p. 0 \<le> px p \<and> px p \<le> 10)\<rparr>"

definition slab_sim :: simulator where
  "slab_sim = azurv1_sim\<lparr>cells := [slab_cell]\<rparr>"

definition slab_particle :: particle where
  "slab_particle =
     (Particle (Point 0 0 0) (Point (- 1) 0 0) 0 0 1 (Some slab_cell) (Some 0))\<lparr>speed := 1\<rparr>"

text \<open>A material of three groups, for the sampling of the outgoing group: from every
  group the fission spectrum is \<open>1/6\<close>, \<open>1/12\<close>, \<open>1/12\<close>, scattering keeps the
  group, and the other data are those of the deck above.\<close>

definition three_group_material :: material where
  "three_group_material =
     \<lparr>SigmaT = [1, 1, 1], SigmaC = [1/3, 1/3, 1/3], SigmaS = [1/3, 1/3, 1/3],
      SigmaF = [1/3, 1/3, 1/3], nu = [23/10, 23/10, 23/10],
      SigmaS_diff = [[1/3, 0, 0], [0, 1/3, 0], [0, 0, 1/3]],
      SigmaF_diff = [[1/6, 1/12, 1/12], [1/6, 1/12, 1/12], [1/6, 1/12, 1/12]]\<rparr>"

definition three_group_cell :: cell where
  "three_group_cell = azurv1_cell\<lparr>material := three_group_material\<rparr>"

definition three_group_sim :: simulator where
  "three_group_sim = azurv1_sim\<lparr>speeds := [1, 1, 1], cells := [three_group_cell]\<rparr>"

definition three_group_particle :: particle where
  "three_group_particle =
     (Particle (Point 0 0 0) (Point 0 1 0) 0 0 1 (Some three_group_cell) (Some 0))\<lparr>speed := 1\<rparr>"

text \<open>The deck above as a \<open>k\<close>-eigenvalue problem of two histories and two iterations,
  with one source that always emits \<open>azurv1_particle\<close>.  Its generator has multiplier
  \<open>1\<close>, increment \<open>2^60\<close> and stride \<open>9\<close>: each draw is an eighth above the one
  before, and each history starts \<open>9/8\<close> above the one before.\<close>

definition eighth_rng :: "63 word \<Rightarrow> 63 word \<Rightarrow> RandomLCG" where
  "eighth_rng b s =
     \<lparr>seed_base = b, rng_seed = s, lcg_g = 1, lcg_c = 1152921504606846976, lcg_stride = 9\<rparr>"

definition azurv1_source :: source where
  "azurv1_source = \<lparr>prob = 1, get_particle = (\<lambda>draws. (azurv1_particle, 0))\<rparr>"

definition azurv1_kmode :: simulator where
  "azurv1_kmode =
     azurv1_sim\<lparr>sources := [azurv1_source], mode_eigenvalue := True, mode_k := True,
       N_iter := 2, k_mean := [0, 0], census_time := [INFTY],
       bank_fission := Some Bank_stored,
       seed := 3458764513820540928, stride := 9,
       rng := eighth_rng 3458764513820540928 3458764513820540928,
       mpi := \<lparr>work_start = 0, work_size = 2, work_size_total = 2, master = True,
               peers_nuSigmaF = (\<lambda>i. 0), normalize_weight = (\<lambda>bank n. bank)\<rparr>\<rparr>"

text \<open>Rank \<open>r\<close> of two ranks sharing two histories, one each.\<close>

definition two_ranks :: "nat \<Rightarrow> mpi_env" where
  "two_ranks r =
     \<lparr>work_start = r, work_size = 1, work_size_total = 2, master = (r = 0),
      peers_nuSigmaF = (\<lambda>i. 0), normalize_weight = (\<lambda>bank n. bank)\<rparr>"

text \<open>The distance to collision of the first history of \<open>azurv1_kmode\<close>, whose first
  draw is \<open>5/8\<close>, and of the second, whose first draw is \<open>3/4\<close>.\<close>

definition kmode_d :: real where
  "kmode_d = - ln (5/8) / (1 + 1 / 10 ^ 20)"

definition kmode_d1 :: real where
  "kmode_d1 = - ln (3/4) / (1 + 1 / 10 ^ 20)"

text \<open>A particle of the slab on its transmission plane \<open>x = 10\<close>, flying out: no cell
  lies beyond the plane.  \<open>slab_lost\<close> has it as the one source particle of rank 0 of
  two.\<close>

definition slab_leaving :: particle where
  "slab_leaving = slab_particle\<lparr>pos := Point 10 0 0, dir := Point 1 0 0\<rparr>"



section \<open>Facts about the generator\<close>


lemma lcg_advance_0 [simp]: "lcg_advance a c 0 s = s"
  by (simp add: lcg_advance_def)

lemma lcg_advance_Suc: "lcg_advance a c (Suc n) s = lcg_next a c (lcg_advance a c n s)"
  by (simp add: lcg_advance_def lcg_next_def algebra_simps)

lemma lcg_advance_add: "lcg_advance a c (m + n) s = lcg_advance a c n (lcg_advance a c m s)"
  by (induction n) (simp_all add: lcg_advance_Suc)

lemma lcg_advance_funpow: "lcg_advance a c n s = (lcg_next a c ^^ n) s"
  by (induction n) (simp_all add: lcg_advance_Suc)

lemma rng_consume_fields [simp]:
  "seed_base (rng_consume n r) = seed_base r"
  "lcg_g (rng_consume n r) = lcg_g r"
  "lcg_c (rng_consume n r) = lcg_c r"
  "lcg_stride (rng_consume n r) = lcg_stride r"
  "rng_seed (rng_consume n r) = lcg_advance (lcg_g r) (lcg_c r) n (rng_seed r)"
  by (simp_all add: rng_consume_def)

lemma rng_consume_0 [simp]: "rng_consume 0 r = r"
  by (simp add: rng_consume_def)

lemma rng_consume_consume [simp]: "rng_consume m (rng_consume n r) = rng_consume (n + m) r"
  by (simp add: rng_consume_def lcg_advance_add)

lemma rng_stream_consume [simp]: "rng_stream (rng_consume n r) k = rng_stream r (n + k)"
  using lcg_advance_add [of "lcg_g r" "lcg_c r" n "Suc k" "rng_seed r"]
  by (simp add: rng_stream_def)

lemma rng_call_stream: "rng_call r = (rng_stream r 0, rng_consume 1 r)"
  by (simp add: rng_call_def rng_stream_def rng_consume_def lcg_advance_Suc Let_def)

lemma isotropic_sample_stream:
  "isotropic_sample r =
     (Point (sqrt (1 - (2 * rng_stream r 0 - 1)\<^sup>2) * cos (2 * pi * rng_stream r 1))
            (sqrt (1 - (2 * rng_stream r 0 - 1)\<^sup>2) * sin (2 * pi * rng_stream r 1))
            (2 * rng_stream r 0 - 1),
      rng_consume 2 r)"
  by (simp add: isotropic_sample_def rng_call_stream Let_def numeral_2_eq_2)

lemma rng_stream_nonneg: "0 \<le> rng_stream r k"
  unfolding rng_stream_def by (intro divide_nonneg_pos of_nat_0_le_iff) simp

lemma quarter_stream:
  "rng_stream (quarter_rng 1152921504606846976) 0 = 3/8"
  "rng_stream (quarter_rng 1152921504606846976) 1 = 5/8"
  "rng_stream (quarter_rng 3458764513820540928) 0 = 5/8"
  "rng_stream (quarter_rng 3458764513820540928) 1 = 7/8"
  by (simp_all add: rng_stream_def quarter_rng_def lcg_advance_def)

lemma geom_one: "geom 1 n = of_nat n"
  by (induction n) simp_all

lemma lcg_advance_one: "lcg_advance 1 c n s = s + c * of_nat n"
  by (simp add: lcg_advance_def geom_one)

lemma quarter_stream_later:
  "rng_stream (quarter_rng 1152921504606846976) (Suc 0) = 5/8"
  "rng_stream (quarter_rng 1152921504606846976) 4 = 3/8"
  by (simp_all add: rng_stream_def quarter_rng_def lcg_advance_one)

lemma azurv1_lookups:
  "xs_lookup SigmaT azurv1_particle = Inr 1"
  "xs_lookup SigmaC azurv1_particle = Inr (1/3)"
  "xs_lookup SigmaS azurv1_particle = Inr (1/3)"
  "xs_lookup SigmaF azurv1_particle = Inr (1/3)"
  "xs_lookup nu azurv1_particle = Inr (23/10)"
  "xs_lookup SigmaF_diff azurv1_particle = Inr [1/3]"
  by (simp_all add: xs_lookup_def index_def azurv1_particle_def Particle_def azurv1_cell_def
      azurv1_material_def)

lemma azurv1_sim_fields:
  "rng azurv1_sim = quarter_rng 1152921504606846976"
  "k_eff azurv1_sim = 1" "bank_fission azurv1_sim = Some Bank_history"
  "bank_history azurv1_sim = []" "bank_stored azurv1_sim = []"
  "census_time azurv1_sim = [Fin 20, PInf]"
  by (simp_all add: azurv1_sim_def)


section \<open>The choice of the event\<close>

text \<open>
  C4.  The step distance is the least of the three distances, and on ties the earlier
  event in the order collision, surface, census wins: the event is a collision exactly
  when \<open>d_coll\<close> is the least, a surface hit exactly when \<open>d_surf\<close> is the least
  and strictly below \<open>d_coll\<close>, and a census only when \<open>d_census\<close> is strictly below
  both others.  Stated on any linear order, so on the distances with \<open>+\<infinity>\<close> too.
\<close>

theorem choose_event_min_tie_order:
  "snd (choose_event d_coll d_surf d_census) = min d_coll (min d_surf d_census)
   \<and> (fst (choose_event d_coll d_surf d_census) = EVENT_COLLISION
        \<longleftrightarrow> d_coll = min d_coll (min d_surf d_census))
   \<and> (fst (choose_event d_coll d_surf d_census) = EVENT_SURFACE
        \<longleftrightarrow> d_surf = min d_coll (min d_surf d_census) \<and> d_surf < d_coll)
   \<and> (fst (choose_event d_coll d_surf d_census) = EVENT_CENSUS
        \<longleftrightarrow> d_census < d_coll \<and> d_census < d_surf)"
  by (auto simp: choose_event_def min_def)


section \<open>The scatter rotation\<close>

text \<open>
  C2.  The guard of \<open>scatter\<close> is \<open>P.dir.z != 1.0\<close>: a particle flying along \<open>-z\<close>
  takes the general branch, where \<open>B = \<surd>(1 - dir.z\<^sup>2) = 0\<close> and \<open>C = Ac/B\<close> divides by
  zero, for every scattering cosine.
\<close>

theorem scatter_dir_minus_z_divides_by_zero:
  "scatter S (P\<lparr>dir := Point 0 0 (- 1)\<rparr>) mu =
     (if 1 < mu\<^sup>2 then Inl NotAReal else Inl ZeroDivisionError)"
  by (simp add: scatter_def Let_def split: prod.splits)


section \<open>Collisions\<close>

lemma collision_branch_cases:
  "(collision_branch sigS sigF xi = Scattering \<longleftrightarrow> xi < sigS)
   \<and> (collision_branch sigS sigF xi = Fission \<longleftrightarrow> sigS \<le> xi \<and> xi < sigS + sigF)
   \<and> (collision_branch sigS sigF xi = Capture \<longleftrightarrow> sigS \<le> xi \<and> sigS + sigF \<le> xi)"
  by (auto simp: collision_branch_def)

text \<open>
  C5.  With the four cross sections of the particle's group read, a collision takes one
  draw \<open>u\<close>, sets \<open>xi = u \<cdot> Sigma_T\<close> and takes exactly one of three branches: scattering
  if and only if \<open>xi < Sigma_S\<close>, fission if and only if
  \<open>Sigma_S \<le> xi < Sigma_S + Sigma_F\<close>, capture otherwise; capture kills the particle
  and changes nothing else.
\<close>

theorem collision_scatter_fission_capture:
  assumes "xs_lookup SigmaT P = Inr sigT" and "xs_lookup SigmaC P = Inr sigC"
    and "xs_lookup SigmaS P = Inr sigS" and "xs_lookup SigmaF P = Inr sigF"
  shows "(let xi = rng_stream (rng S) 0 * sigT;
              S1 = S\<lparr>rng := rng_consume 1 (rng S)\<rparr>
          in (collision_branch sigS sigF xi = Scattering \<longleftrightarrow> xi < sigS)
           \<and> (collision_branch sigS sigF xi = Fission \<longleftrightarrow> sigS \<le> xi \<and> xi < sigS + sigF)
           \<and> (collision_branch sigS sigF xi = Capture \<longleftrightarrow> sigS \<le> xi \<and> sigS + sigF \<le> xi)
           \<and> collision S P =
               (case collision_branch sigS sigF xi of
                  Scattering \<Rightarrow> collision_scattering S1 P
                | Fission \<Rightarrow> collision_fission S1 P
                | Capture \<Rightarrow> Inr (S1, P\<lparr>alive := False\<rparr>)))"
  using assms
  by (simp add: collision_def rng_call_stream collision_branch_cases collision_capture_def Let_def
      split: reaction.splits)

theorem collision_scatter_fission_capture_witness:
  "collision_branch (1/3) (1/3) (rng_stream (rng azurv1_sim) 0 * 1) = Fission
   \<and> collision azurv1_sim azurv1_particle =
       collision_fission (azurv1_sim\<lparr>rng := rng_consume 1 (rng azurv1_sim)\<rparr>) azurv1_particle"
  using collision_scatter_fission_capture [OF azurv1_lookups(1-4), of azurv1_sim]
  by (simp add: Let_def azurv1_sim_fields quarter_stream collision_branch_def)


section \<open>Fission\<close>

lemma group_scan_bound: "xs \<noteq> [] \<Longrightarrow> group_scan xi tot i xs < i + length xs"
  by (induction xi tot i xs rule: group_scan.induct) auto

lemma sample_group_Inr:
  "diff \<noteq> [] \<Longrightarrow> sample_group diff xi = Inr (group_scan xi 0 0 diff)"
  by (cases diff) (simp_all add: sample_group_def)

lemma progeny_shift:
  "progeny P d f (rng_consume 3 r) k = progeny P d f r (Suc k)"
  by (simp add: progeny_def add.commute)

lemma map_progeny_Suc:
  "map (progeny P d f r) [0..<Suc n] = progeny P d f r 0 # map (progeny P d f (rng_consume 3 r)) [0..<n]"
proof -
  have "[0..<Suc n] = 0 # map Suc [0..<n]"
    by (simp add: upt_conv_Cons map_Suc_upt del: upt_Suc)
  then show ?thesis
    by (simp add: progeny_shift [symmetric] o_def del: upt_Suc)
qed

lemma fission_loop_stored:
  assumes "sigF_diff \<noteq> []"
  shows "bank_fission S = Some Bank_stored \<Longrightarrow>
     fission_loop n sigF_diff sigF S P =
       Inr (S\<lparr>rng := rng_consume (3 * n) (rng S),
              bank_stored := bank_stored S @ map (progeny P sigF_diff sigF (rng S)) [0..<n]\<rparr>)"
proof (induction n arbitrary: S)
  case 0
  then show ?case by simp
next
  case (Suc n)
  let ?S1 = "S\<lparr>rng := rng_consume 3 (rng S),
               bank_stored := bank_stored S @ [progeny P sigF_diff sigF (rng S) 0]\<rparr>"
  have step: "fission_loop (Suc n) sigF_diff sigF S P = fission_loop n sigF_diff sigF ?S1 P"
    using assms Suc.prems
    by (simp add: rng_call_stream sample_group_Inr isotropic_sample_stream
        bank_fission_append_def progeny_def Let_def numeral_3_eq_3)
  have "bank_fission ?S1 = Some Bank_stored"
    using Suc.prems by simp
  from Suc.IH [OF this] show ?case
    unfolding step map_progeny_Suc by (simp add: add.commute)
qed

lemma group_scan_ge: "i \<le> group_scan xi tot i xs"
  by (induction xi tot i xs rule: group_scan.induct) auto

lemma group_scan_cumulative:
  "(\<forall>j. i \<le> j \<and> j < group_scan xi tot i xs \<longrightarrow> tot + sum_list (take (Suc (j - i)) xs) \<le> xi)
   \<and> (group_scan xi tot i xs + 1 < i + length xs
        \<longrightarrow> xi < tot + sum_list (take (Suc (group_scan xi tot i xs - i)) xs))"
proof (induction xi tot i xs rule: group_scan.induct)
  case (1 xi tot i)
  then show ?case by simp
next
  case (2 xi tot i s)
  then show ?case by simp
next
  case (3 xi tot i s t rest)
  show ?case
  proof (cases "tot + s > xi")
    case True
    then show ?thesis by simp
  next
    case False
    note IH = 3 [OF False]
    have ge: "Suc i \<le> group_scan xi (tot + s) (Suc i) (t # rest)"
      by (rule group_scan_ge)
    have A: "tot + sum_list (take (Suc (j - i)) (s # t # rest)) \<le> xi"
      if "i \<le> j" "j < group_scan xi (tot + s) (Suc i) (t # rest)" for j
    proof (cases "j = i")
      case True
      with False show ?thesis by simp
    next
      case False
      with that have "Suc i \<le> j" by simp
      with IH that have "tot + s + sum_list (take (Suc (j - Suc i)) (t # rest)) \<le> xi"
        by blast
      moreover have "Suc (j - i) = Suc (Suc (j - Suc i))"
        using \<open>Suc i \<le> j\<close> by simp
      ultimately show ?thesis by (simp add: add.assoc)
    qed
    have B: "xi < tot + sum_list (take (Suc (group_scan xi (tot + s) (Suc i) (t # rest) - i)) (s # t # rest))"
      if "group_scan xi (tot + s) (Suc i) (t # rest) + 1 < i + length (s # t # rest)"
    proof -
      from that IH
      have "xi < tot + s + sum_list (take (Suc (group_scan xi (tot + s) (Suc i) (t # rest) - Suc i)) (t # rest))"
        by simp
      moreover have "Suc (group_scan xi (tot + s) (Suc i) (t # rest) - i)
                     = Suc (Suc (group_scan xi (tot + s) (Suc i) (t # rest) - Suc i))"
        using ge by simp
      ultimately show ?thesis by (simp add: add.assoc)
    qed
    from False A B show ?thesis by simp
  qed
qed

lemma fission_loop_history:
  assumes "sigF_diff \<noteq> []"
  shows "bank_fission S = Some Bank_history \<Longrightarrow>
     fission_loop n sigF_diff sigF S P =
       Inr (S\<lparr>rng := rng_consume (3 * n) (rng S),
              bank_history := bank_history S @ map (progeny P sigF_diff sigF (rng S)) [0..<n]\<rparr>)"
proof (induction n arbitrary: S)
  case 0
  then show ?case by simp
next
  case (Suc n)
  let ?S1 = "S\<lparr>rng := rng_consume 3 (rng S),
               bank_history := bank_history S @ [progeny P sigF_diff sigF (rng S) 0]\<rparr>"
  have step: "fission_loop (Suc n) sigF_diff sigF S P = fission_loop n sigF_diff sigF ?S1 P"
    using assms Suc.prems
    by (simp add: rng_call_stream sample_group_Inr isotropic_sample_stream
        bank_fission_append_def progeny_def Let_def numeral_3_eq_3)
  have "bank_fission ?S1 = Some Bank_history"
    using Suc.prems by simp
  from Suc.IH [OF this] show ?case
    unfolding step map_progeny_Suc by (simp add: add.commute)
qed

lemma xs_lookup_alive [simp]: "xs_lookup F (P\<lparr>alive := b\<rparr>) = xs_lookup F P"
  by (simp add: xs_lookup_def split: option.splits)

lemma progeny_alive [simp]: "progeny (P\<lparr>alive := b\<rparr>) d f r k = progeny P d f r k"
  by (simp add: progeny_def)

lemma progeny_fields:
  "pos (progeny P d f r k) = pos P" "time (progeny P d f r k) = time P"
  "wgt (progeny P d f r k) = wgt P" "cell (progeny P d f r k) = cell P"
  "time_idx (progeny P d f r k) = time_idx P" "alive (progeny P d f r k)"
  "g (progeny P d f r k) = group_scan (rng_stream r (3 * k) * f) 0 0 d"
  "dir (progeny P d f r k) = fst (isotropic_sample (rng_consume (3 * k + 1) r))"
  by (simp_all add: progeny_def Particle_def)

lemma collision_fission_eq:
  assumes "xs_lookup SigmaF_diff P = Inr sigF_diff" and "sigF_diff \<noteq> []"
    and "xs_lookup SigmaF P = Inr sigF" and "xs_lookup nu P = Inr nu0"
    and "k_eff S \<noteq> 0" and "bank_fission S = Some b"
  shows "collision_fission S P =
      Inr (case b of
             Bank_stored \<Rightarrow> S\<lparr>rng := rng_consume (3 * nat \<lfloor>nu0 / k_eff S + rng_stream (rng S) 0\<rfloor> + 1) (rng S),
                 bank_stored := bank_stored S @ map (progeny P sigF_diff sigF (rng_consume 1 (rng S)))
                   [0..<nat \<lfloor>nu0 / k_eff S + rng_stream (rng S) 0\<rfloor>]\<rparr>
           | Bank_history \<Rightarrow> S\<lparr>rng := rng_consume (3 * nat \<lfloor>nu0 / k_eff S + rng_stream (rng S) 0\<rfloor> + 1) (rng S),
                 bank_history := bank_history S @ map (progeny P sigF_diff sigF (rng_consume 1 (rng S)))
                   [0..<nat \<lfloor>nu0 / k_eff S + rng_stream (rng S) 0\<rfloor>]\<rparr>,
           P\<lparr>alive := False\<rparr>)"
proof -
  define N where "N = \<lfloor>nu0 / k_eff S + rng_stream (rng S) 0\<rfloor>"
  define S1 where "S1 = S\<lparr>rng := rng_consume 1 (rng S)\<rparr>"
  have run: "collision_fission S P =
      (case fission_loop (nat N) sigF_diff sigF S1 (P\<lparr>alive := False\<rparr>) of
         Inl e \<Rightarrow> Inl e | Inr S' \<Rightarrow> Inr (S', P\<lparr>alive := False\<rparr>))"
    using assms by (simp add: collision_fission_def rng_call_stream fission_N_def Let_def N_def S1_def)
  show ?thesis
    unfolding N_def [symmetric]
  proof (cases b)
    case Bank_stored
    then have "bank_fission S1 = Some Bank_stored" using assms by (simp add: S1_def)
    from fission_loop_stored [OF assms(2) this] show "collision_fission S P =
      Inr (case b of
             Bank_stored \<Rightarrow> S\<lparr>rng := rng_consume (3 * nat N + 1) (rng S),
                 bank_stored := bank_stored S @ map (progeny P sigF_diff sigF (rng_consume 1 (rng S)))
                   [0..<nat N]\<rparr>
           | Bank_history \<Rightarrow> S\<lparr>rng := rng_consume (3 * nat N + 1) (rng S),
                 bank_history := bank_history S @ map (progeny P sigF_diff sigF (rng_consume 1 (rng S)))
                   [0..<nat N]\<rparr>,
           P\<lparr>alive := False\<rparr>)"
      unfolding run using Bank_stored by (simp add: S1_def add.commute)
  next
    case Bank_history
    then have "bank_fission S1 = Some Bank_history" using assms by (simp add: S1_def)
    from fission_loop_history [OF assms(2) this] show "collision_fission S P =
      Inr (case b of
             Bank_stored \<Rightarrow> S\<lparr>rng := rng_consume (3 * nat N + 1) (rng S),
                 bank_stored := bank_stored S @ map (progeny P sigF_diff sigF (rng_consume 1 (rng S)))
                   [0..<nat N]\<rparr>
           | Bank_history \<Rightarrow> S\<lparr>rng := rng_consume (3 * nat N + 1) (rng S),
                 bank_history := bank_history S @ map (progeny P sigF_diff sigF (rng_consume 1 (rng S)))
                   [0..<nat N]\<rparr>,
           P\<lparr>alive := False\<rparr>)"
      unfolding run using Bank_history by (simp add: S1_def add.commute)
  qed
qed

lemma three_group_lookups:
  "xs_lookup SigmaF three_group_particle = Inr (1/3)"
  "xs_lookup nu three_group_particle = Inr (23/10)"
  "xs_lookup SigmaF_diff three_group_particle = Inr [1/6, 1/12, 1/12]"
  by (simp_all add: xs_lookup_def index_def three_group_particle_def Particle_def
      three_group_cell_def three_group_material_def)

lemma three_group_sim_fields:
  "rng three_group_sim = quarter_rng 1152921504606846976"
  "k_eff three_group_sim = 1" "bank_fission three_group_sim = Some Bank_history"
  "bank_history three_group_sim = []"
  by (simp_all add: three_group_sim_def azurv1_sim_def)

text \<open>
  C6.  With the fission data of the particle's group read, a nonzero \<open>k_eff\<close> and
  \<open>bank_fission\<close> set, \<open>collision_fission\<close> kills the particle, takes one draw \<open>u\<close>
  for \<open>N = \<lfloor>\<nu>/k_eff + u\<rfloor>\<close>, and appends \<open>N\<close> particles to the bank that
  \<open>bank_fission\<close> names.  The \<open>k\<close>-th of them has the position, time, weight, cell and
  \<open>time_idx\<close> of the parent and is alive; its direction is an isotropic sample from two
  draws of its own; its group is sampled from a draw \<open>\<xi>\<close> of its own, scaled by
  \<open>\<Sigma>\<^sub>F\<close>, by the cumulated \<open>SigmaF_diff\<close>: it is a group of the spectrum, the cumulated
  spectrum of every group before it is at most \<open>\<xi>\<close>, and unless it is the last group
  its own cumulated spectrum exceeds \<open>\<xi>\<close>.
\<close>

theorem fission_kills_and_banks_progeny:
  assumes "xs_lookup SigmaF_diff P = Inr sigF_diff" and "sigF_diff \<noteq> []"
    and "xs_lookup SigmaF P = Inr sigF" and "xs_lookup nu P = Inr nu0"
    and "k_eff S \<noteq> 0" and "bank_fission S = Some b"
  shows "(let N = \<lfloor>nu0 / k_eff S + rng_stream (rng S) 0\<rfloor>;
              kids = map (progeny P sigF_diff sigF (rng_consume 1 (rng S))) [0..<nat N];
              r = rng_consume (3 * nat N + 1) (rng S)
          in collision_fission S P =
               Inr (case b of
                      Bank_stored \<Rightarrow> S\<lparr>rng := r, bank_stored := bank_stored S @ kids\<rparr>
                    | Bank_history \<Rightarrow> S\<lparr>rng := r, bank_history := bank_history S @ kids\<rparr>,
                    P\<lparr>alive := False\<rparr>)
           \<and> (0 \<le> nu0 / k_eff S \<longrightarrow> int (length kids) = N)
           \<and> (\<forall>k < length kids.
                 let Q = kids ! k;
                     xi = rng_stream (rng S) (3 * k + 1) * sigF
                 in pos Q = pos P \<and> time Q = time P \<and> wgt Q = wgt P
                    \<and> cell Q = cell P \<and> time_idx Q = time_idx P \<and> alive Q
                    \<and> dir Q = fst (isotropic_sample (rng_consume (3 * k + 2) (rng S)))
                    \<and> g Q < length sigF_diff
                    \<and> (\<forall>j < g Q. sum_list (take (Suc j) sigF_diff) \<le> xi)
                    \<and> (g Q + 1 < length sigF_diff
                          \<longrightarrow> xi < sum_list (take (Suc (g Q)) sigF_diff))))"
proof -
  define N where "N = \<lfloor>nu0 / k_eff S + rng_stream (rng S) 0\<rfloor>"
  define kid where "kid = progeny P sigF_diff sigF (rng_consume 1 (rng S))"
  have eq: "collision_fission S P =
      Inr (case b of
             Bank_stored \<Rightarrow> S\<lparr>rng := rng_consume (3 * nat N + 1) (rng S),
                 bank_stored := bank_stored S @ map kid [0..<nat N]\<rparr>
           | Bank_history \<Rightarrow> S\<lparr>rng := rng_consume (3 * nat N + 1) (rng S),
                 bank_history := bank_history S @ map kid [0..<nat N]\<rparr>,
           P\<lparr>alive := False\<rparr>)"
    unfolding N_def kid_def by (rule collision_fission_eq [OF assms])
  have len: "0 \<le> nu0 / k_eff S \<Longrightarrow> 0 \<le> N"
    using rng_stream_nonneg [of "rng S" 0] by (simp add: N_def)
  have inherit: "pos (kid k) = pos P \<and> time (kid k) = time P \<and> wgt (kid k) = wgt P
      \<and> cell (kid k) = cell P \<and> time_idx (kid k) = time_idx P \<and> alive (kid k)" for k
    by (simp add: kid_def progeny_fields)
  have dirk: "dir (kid k) = fst (isotropic_sample (rng_consume (3 * k + 2) (rng S)))" for k
    by (simp add: kid_def progeny_fields add.commute)
  have gk: "g (kid k) = group_scan (rng_stream (rng S) (3 * k + 1) * sigF) 0 0 sigF_diff" for k
    by (simp add: kid_def progeny_fields add.commute)
  have bound: "g (kid k) < length sigF_diff" for k
    unfolding gk using group_scan_bound [OF assms(2), of _ 0 0] by simp
  have below: "sum_list (take (Suc j) sigF_diff) \<le> rng_stream (rng S) (3 * k + 1) * sigF"
    if "j < g (kid k)" for j k
    using group_scan_cumulative [of 0 "rng_stream (rng S) (3 * k + 1) * sigF" 0 sigF_diff]
      that unfolding gk by simp
  have above: "rng_stream (rng S) (3 * k + 1) * sigF < sum_list (take (Suc (g (kid k))) sigF_diff)"
    if "g (kid k) + 1 < length sigF_diff" for k
    using group_scan_cumulative [of 0 "rng_stream (rng S) (3 * k + 1) * sigF" 0 sigF_diff]
      that unfolding gk by simp
  show ?thesis
    unfolding Let_def N_def [symmetric] kid_def [symmetric]
    using eq len inherit dirk bound below above by simp
qed

theorem fission_kills_and_banks_progeny_witness:
  "collision_fission three_group_sim three_group_particle =
     Inr (three_group_sim\<lparr>rng := rng_consume 7 (rng three_group_sim),
            bank_history :=
              [Particle (Point 0 0 0)
                 (fst (isotropic_sample (rng_consume 2 (rng three_group_sim))))
                 1 0 1 (Some three_group_cell) (Some 0),
               Particle (Point 0 0 0)
                 (fst (isotropic_sample (rng_consume 5 (rng three_group_sim))))
                 0 0 1 (Some three_group_cell) (Some 0)]\<rparr>,
          three_group_particle\<lparr>alive := False\<rparr>)"
proof -
  have N: "\<lfloor>23 / 10 / k_eff three_group_sim + rng_stream (rng three_group_sim) 0\<rfloor> = 2"
    by (simp add: three_group_sim_fields quarter_stream)
  have P: "pos three_group_particle = Point 0 0 0" "time three_group_particle = 0"
    "wgt three_group_particle = 1" "cell three_group_particle = Some three_group_cell"
    "time_idx three_group_particle = Some 0"
    by (simp_all add: three_group_particle_def Particle_def)
  from fission_kills_and_banks_progeny
         [OF three_group_lookups(3) _ three_group_lookups(1) three_group_lookups(2) _
             three_group_sim_fields(3), unfolded Let_def N, THEN conjunct1]
  show ?thesis
    by (simp add: three_group_sim_fields progeny_def P quarter_stream_later upt_conv_Cons
        numeral_2_eq_2)
qed


section \<open>The census event\<close>

lemma loop_particle_dead: "\<not> alive P \<Longrightarrow> loop_particle n S P = Done (S, P)"
  by (cases n) simp_all

text \<open>
  C7.  On a census event of a particle with a speed and a census index \<open>k\<close>, the
  particle is moved by \<open>SMALL \<cdot> speed\<close> (its time by \<open>SMALL\<close>), its index becomes
  \<open>k + 1\<close>, a copy of it is appended to \<open>bank_stored\<close> if and only if
  \<open>k + 1 < len(census_time)\<close>, and the particle is dead in both cases, so that the
  particle loop ends.
\<close>

theorem census_event_stores_unless_final_and_kills:
  assumes "speed P \<noteq> 0" and "time_idx P = Some k"
  shows "(let P' = P\<lparr>pos := point_add (pos P) (point_scale (dir P) (SMALL * speed P)),
                     time := time P + SMALL,
                     distance := distance P + SMALL * speed P,
                     time_idx := Some (k + 1),
                     alive := False\<rparr>;
              S' = (if k + 1 < length (census_time S)
                    then S\<lparr>bank_stored := bank_stored S @ [create_copy P']\<rparr> else S)
          in perform_event EVENT_CENSUS Sf S P = Inr (S', P')
           \<and> loop_particle n S' P' = Done (S', P'))"
  using assms
  by (simp add: perform_event_def census_event_def move_particle_def create_copy_def Let_def
      loop_particle_dead)

theorem census_event_stores_unless_final_and_kills_witness:
  "perform_event EVENT_CENSUS None azurv1_sim azurv1_particle =
     Inr (azurv1_sim\<lparr>bank_stored :=
             [Particle (Point 0 (1 / 10 ^ 10) 0) (Point 0 1 0) 0 (1 / 10 ^ 10) 1
                (Some azurv1_cell) (Some 1)]\<rparr>,
          azurv1_particle\<lparr>pos := Point 0 (1 / 10 ^ 10) 0, time := 1 / 10 ^ 10,
             distance := 1 / 10 ^ 10, time_idx := Some 1, alive := False\<rparr>)"
  using census_event_stores_unless_final_and_kills [of azurv1_particle 0 azurv1_sim None 0]
  by (simp add: Let_def azurv1_sim_fields azurv1_particle_def Particle_def create_copy_def
      SMALL_def point_add_def point_scale_def)


section \<open>The surface event\<close>

lemma set_cell_lost:
  "(\<forall>c \<in> set (cells S). \<not> test_point c (pos P)) \<Longrightarrow> set_cell S P = Inl (LostParticle (pos P))"
  by (simp add: set_cell_def find_None_iff [THEN iffD2])

lemma set_cell_first_match:
  "cells S = before @ C # after \<Longrightarrow> (\<forall>c \<in> set before. \<not> test_point c (pos P))
   \<Longrightarrow> test_point C (pos P) \<Longrightarrow> set_cell S P = Inr (P\<lparr>cell := Some C\<rparr>)"
proof -
  assume a: "cells S = before @ C # after" "\<forall>c \<in> set before. \<not> test_point c (pos P)"
    "test_point C (pos P)"
  have "find (\<lambda>c. test_point c (pos P)) (before @ C # after) = Some C"
    using a(2,3) by (induction before) simp_all
  with a(1) show ?thesis by (simp add: set_cell_def)
qed

text \<open>
  C3, as the claim states it, fails: a particle on the vacuum plane of the slab is killed
  by the boundary condition and is moved by \<open>SMALL\<close> all the same.
\<close>

theorem surface_hit_vacuum_still_moved:
  "perform_event EVENT_SURFACE (Some (plane_x 0 Vacuum)) slab_sim slab_particle =
     Inr (slab_sim,
          slab_particle\<lparr>surface := Some (plane_x 0 Vacuum), alive := False,
                         pos := Point (- (1 / 10 ^ 10)) 0 0, time := 1 / 10 ^ 10,
                         distance := 1 / 10 ^ 10\<rparr>)
   \<and> pos slab_particle = Point 0 0 0"
  by (simp add: perform_event_def surface_hit_def move_particle_def apply_bc_def plane_x_def
      slab_particle_def Particle_def SMALL_def point_add_def point_scale_def)

text \<open>
  C3, amended.  On a surface event of a particle with a speed, the surface is recorded and
  its boundary condition applied; the particle is then moved by \<open>SMALL\<close> along its
  direction after the boundary condition, alive or not; only a particle still alive has
  its cell resolved again, as the first cell of the list that holds its position, and it
  is fatal that there is none.
\<close>

theorem surface_event_nudges_then_resolves:
  assumes "speed P \<noteq> 0"
  shows "perform_event EVENT_SURFACE (Some Sf) S P =
     (let Q = apply_bc Sf (P\<lparr>surface := Some Sf\<rparr>);
          Q1 = Q\<lparr>pos := point_add (pos Q) (point_scale (dir Q) SMALL),
                 time := time Q + SMALL / speed Q,
                 distance := distance Q + SMALL\<rparr>
      in if alive Q
         then (case find (\<lambda>c. test_point c (pos Q1)) (cells S) of
                 None \<Rightarrow> Inl (LostParticle (pos Q1))
               | Some C \<Rightarrow> Inr (S, Q1\<lparr>cell := Some C\<rparr>))
         else Inr (S, Q1))"
  using assms
  by (cases "surf_bc Sf")
     (simp_all add: perform_event_def surface_hit_def move_particle_def apply_bc_def set_cell_def
      Let_def split: option.splits)

theorem surface_event_nudges_then_resolves_witness:
  "perform_event EVENT_SURFACE (Some (plane_x 10 Transmission)) slab_sim
     (slab_particle\<lparr>pos := Point 10 0 0\<rparr>) =
     Inr (slab_sim,
          slab_particle\<lparr>surface := Some (plane_x 10 Transmission),
                         pos := Point (10 - 1 / 10 ^ 10) 0 0, time := 1 / 10 ^ 10,
                         distance := 1 / 10 ^ 10, cell := Some slab_cell\<rparr>)"
  using surface_event_nudges_then_resolves
          [of "slab_particle\<lparr>pos := Point 10 0 0\<rparr>" "plane_x 10 Transmission" slab_sim]
  by (simp add: Let_def apply_bc_def plane_x_def slab_particle_def Particle_def SMALL_def
      point_add_def point_scale_def slab_sim_def slab_cell_def)


section \<open>What tracking leaves alone\<close>

lemma tracking_frame_refl [simp]: "tracking_frame S S"
  by (simp add: tracking_frame_def)

lemma tracking_frame_trans:
  "tracking_frame S S1 \<Longrightarrow> tracking_frame S1 S2 \<Longrightarrow> tracking_frame S S2"
  by (simp add: tracking_frame_def)

lemma tracking_frame_rng [simp]:
  "tracking_frame S (S\<lparr>rng := rng_consume n (rng S)\<rparr>)"
  by (simp add: tracking_frame_def)

lemma get_collision_distance_frame:
  "get_collision_distance S P = Inr (d, S') \<Longrightarrow> S' = S\<lparr>rng := rng_consume 1 (rng S)\<rparr>"
  by (auto simp: get_collision_distance_def rng_call_stream Let_def split: sum.splits if_splits)

lemma scatter_frame:
  "scatter S P mu = Inr (S', P') \<Longrightarrow>
     S' = S\<lparr>rng := rng_consume 1 (rng S)\<rparr> \<and> (\<exists>d. P' = P\<lparr>dir := d\<rparr>)"
  by (auto simp: scatter_def rng_call_stream Let_def split: if_splits)

lemma collision_scattering_frame:
  "collision_scattering S P = Inr (S', P') \<Longrightarrow>
     S' = S\<lparr>rng := rng_consume 3 (rng S)\<rparr> \<and> (\<exists>d g'. P' = P\<lparr>g := g', dir := d\<rparr>)"
  by (auto simp: collision_scattering_def rng_call_stream Let_def numeral_3_eq_3
      split: sum.splits dest!: scatter_frame)

lemma bank_fission_append_frame:
  "bank_fission_append S Q = Inr S' \<Longrightarrow>
     tracking_frame S S' \<and> nuSigmaF_sum S' = nuSigmaF_sum S \<and> rng S' = rng S"
  by (auto simp: bank_fission_append_def tracking_frame_def split: option.splits bank_ref.splits)

lemma fission_loop_frame:
  "fission_loop n sigF_diff sigF S P = Inr S' \<Longrightarrow>
     tracking_frame S S' \<and> nuSigmaF_sum S' = nuSigmaF_sum S"
proof (induction n arbitrary: S)
  case 0
  then show ?case by simp
next
  case (Suc n)
  from Suc.prems obtain g_out S1 where
    app: "bank_fission_append
            (S\<lparr>rng := snd (isotropic_sample (snd (rng_call (rng S))))\<rparr>)
            (Particle (pos P) (fst (isotropic_sample (snd (rng_call (rng S))))) g_out
               (time P) (wgt P) (cell P) (time_idx P)) = Inr S1"
    and rest: "fission_loop n sigF_diff sigF S1 P = Inr S'"
    by (auto simp: Let_def split: prod.splits sum.splits)
  from bank_fission_append_frame [OF app]
  have "tracking_frame S S1 \<and> nuSigmaF_sum S1 = nuSigmaF_sum S"
    by (simp add: tracking_frame_def isotropic_sample_stream rng_call_stream)
  with Suc.IH [OF rest] show ?case
    by (auto intro: tracking_frame_trans)
qed

lemma collision_fission_frame:
  "collision_fission S P = Inr (S', P') \<Longrightarrow>
     tracking_frame S S' \<and> nuSigmaF_sum S' = nuSigmaF_sum S \<and> P' = P\<lparr>alive := False\<rparr>"
  apply (simp add: collision_fission_def rng_call_stream Let_def split: sum.splits if_splits)
  apply (drule fission_loop_frame)
  apply (simp add: tracking_frame_def)
  done

text \<open>The shadow slot and the distance of a step.\<close>

lemma collision_frame:
  "collision S P = Inr (S', P') \<Longrightarrow>
     tracking_frame S S' \<and> nuSigmaF_sum S' = nuSigmaF_sum S
     \<and> pos_old P' = pos_old P \<and> g_old P' = g_old P \<and> time_old P' = time_old P
     \<and> wgt_old P' = wgt_old P \<and> cell_old P' = cell_old P \<and> distance P' = distance P
     \<and> time P' = time P \<and> speed P' = speed P"
proof -
  assume a: "collision S P = Inr (S', P')"
  let ?S1 = "S\<lparr>rng := rng_consume 1 (rng S)\<rparr>"
  from a consider
    (sc) "collision_scattering ?S1 P = Inr (S', P')"
  | (fi) "collision_fission ?S1 P = Inr (S', P')"
  | (ca) "S' = ?S1" "P' = P\<lparr>alive := False\<rparr>"
    by (auto simp: collision_def rng_call_stream Let_def collision_capture_def
        split: sum.splits reaction.splits)
  then show ?thesis
  proof cases
    case sc
    from collision_scattering_frame [OF sc] show ?thesis
      by (auto simp: tracking_frame_def)
  next
    case fi
    from collision_fission_frame [OF fi] show ?thesis
      by (auto simp: tracking_frame_def)
  next
    case ca
    then show ?thesis by (simp add: tracking_frame_def)
  qed
qed

lemma surface_hit_frame:
  "surface_hit S P = Inr P' \<Longrightarrow>
     pos_old P' = pos_old P \<and> g_old P' = g_old P \<and> time_old P' = time_old P
     \<and> wgt_old P' = wgt_old P \<and> cell_old P' = cell_old P
     \<and> distance P' = distance P + SMALL \<and> time P' = time P + SMALL / speed P
     \<and> speed P' = speed P \<and> speed P \<noteq> 0"
  by (auto simp: surface_hit_def move_particle_def apply_bc_def set_cell_def
      split: option.splits sum.splits if_splits bc_kind.splits)

lemma census_event_frame:
  "census_event S P = Inr (S', P') \<Longrightarrow>
     tracking_frame S S' \<and> nuSigmaF_sum S' = nuSigmaF_sum S
     \<and> pos_old P' = pos_old P \<and> g_old P' = g_old P \<and> time_old P' = time_old P
     \<and> wgt_old P' = wgt_old P \<and> cell_old P' = cell_old P
     \<and> distance P' = distance P + SMALL * speed P \<and> time P' = time P + SMALL
     \<and> speed P' = speed P \<and> speed P \<noteq> 0"
  by (auto simp: census_event_def move_particle_def tracking_frame_def Let_def
      split: option.splits sum.splits if_splits)

lemma perform_event_frame:
  "perform_event ev Sf S P = Inr (S', P') \<Longrightarrow>
     tracking_frame S S' \<and> nuSigmaF_sum S' = nuSigmaF_sum S
     \<and> pos_old P' = pos_old P \<and> g_old P' = g_old P \<and> time_old P' = time_old P
     \<and> wgt_old P' = wgt_old P \<and> cell_old P' = cell_old P
     \<and> speed P' = speed P
     \<and> (speed P \<noteq> 0 \<longrightarrow> distance P' - distance P = speed P * (time P' - time P))"
proof (cases ev)
  case EVENT_COLLISION
  assume "perform_event ev Sf S P = Inr (S', P')"
  with EVENT_COLLISION have "collision S P = Inr (S', P')"
    by (simp add: perform_event_def)
  from collision_frame [OF this] show ?thesis by simp
next
  case EVENT_SURFACE
  assume "perform_event ev Sf S P = Inr (S', P')"
  with EVENT_SURFACE have "surface_hit S (P\<lparr>surface := Sf\<rparr>) = Inr P'" "S' = S"
    by (auto simp: perform_event_def split: sum.splits)
  from surface_hit_frame [OF this(1)] this(2) show ?thesis by simp
next
  case EVENT_CENSUS
  assume "perform_event ev Sf S P = Inr (S', P')"
  with EVENT_CENSUS have "census_event S P = Inr (S', P')"
    by (simp add: perform_event_def)
  from census_event_frame [OF this] show ?thesis by simp
qed

lemma score_eigenvalue_frame:
  "score_eigenvalue S P = Inr S' \<Longrightarrow> tracking_frame S S'"
  by (auto simp: score_eigenvalue_def tracking_frame_def Let_def
      split: if_splits option.splits sum.splits)

lemma particle_iter_cases:
  assumes "particle_iter S P = Inr (S', P')"
  obtains v d_coll Sf d_surf d_census ev d P2 S2 P3 where
    "index (speeds S) (g P) = Inr v"
    "get_collision_distance S ((save_previous_state P)\<lparr>speed := v\<rparr>)
       = Inr (d_coll, S\<lparr>rng := rng_consume 1 (rng S)\<rparr>)"
    "surface_distance ((save_previous_state P)\<lparr>speed := v\<rparr>) = Inr (Sf, d_surf)"
    "census_distance (S\<lparr>rng := rng_consume 1 (rng S)\<rparr>)
       ((save_previous_state P)\<lparr>speed := v\<rparr>) = Inr d_census"
    "choose_event d_coll d_surf d_census = (ev, Fin d)"
    "move_particle ((save_previous_state P)\<lparr>speed := v\<rparr>) d = Inr P2"
    "perform_event ev Sf (S\<lparr>rng := rng_consume 1 (rng S)\<rparr>) P2 = Inr (S2, P3)"
    "score_eigenvalue S2 P3 = Inr S'"
    "P' = reset_record P3"
proof -
  from assms obtain v where v: "index (speeds S) (g P) = Inr v"
    by (auto simp: particle_iter_def Let_def save_previous_state_def split: sum.splits)
  let ?P1 = "(save_previous_state P)\<lparr>speed := v\<rparr>"
  from assms v obtain d_coll S1 where dc: "get_collision_distance S ?P1 = Inr (d_coll, S1)"
    by (auto simp: particle_iter_def Let_def save_previous_state_def split: sum.splits)
  from get_collision_distance_frame [OF dc] have S1: "S1 = S\<lparr>rng := rng_consume 1 (rng S)\<rparr>" .
  from assms v dc obtain Sf d_surf where ds: "surface_distance ?P1 = Inr (Sf, d_surf)"
    by (auto simp: particle_iter_def Let_def save_previous_state_def split: sum.splits)
  from assms v dc ds obtain d_census where dn: "census_distance S1 ?P1 = Inr d_census"
    by (auto simp: particle_iter_def Let_def save_previous_state_def split: sum.splits)
  obtain ev d_move where ce: "choose_event d_coll d_surf d_census = (ev, d_move)"
    by (cases "choose_event d_coll d_surf d_census")
  from assms v dc ds dn ce obtain d where d: "d_move = Fin d"
    by (auto simp: particle_iter_def Let_def save_previous_state_def split: sum.splits xreal.splits)
  from assms v dc ds dn ce d obtain P2 where mv: "move_particle ?P1 d = Inr P2"
    by (auto simp: particle_iter_def Let_def save_previous_state_def split: sum.splits)
  from assms v dc ds dn ce d mv obtain S2 P3 where pe: "perform_event ev Sf S1 P2 = Inr (S2, P3)"
    by (auto simp: particle_iter_def Let_def save_previous_state_def split: sum.splits)
  from assms v dc ds dn ce d mv pe have "score_eigenvalue S2 P3 = Inr S'" "P' = reset_record P3"
    by (auto simp: particle_iter_def Let_def save_previous_state_def split: sum.splits)
  with that v dc ds dn ce d mv pe S1 show ?thesis by blast
qed

lemma particle_iter_frame:
  assumes "particle_iter S P = Inr (S', P')"
  shows "tracking_frame S S'"
proof -
  from assms obtain ev Sf P2 S2 P3 where
    pe: "perform_event ev Sf (S\<lparr>rng := rng_consume 1 (rng S)\<rparr>) P2 = Inr (S2, P3)"
    and sc: "score_eigenvalue S2 P3 = Inr S'"
    by (rule particle_iter_cases)
  from perform_event_frame [OF pe] score_eigenvalue_frame [OF sc]
  show ?thesis
    by (auto intro: tracking_frame_trans [OF tracking_frame_rng] tracking_frame_trans)
qed

lemma particle_iter_score:
  assumes "particle_iter S P = Inr (S', P')" and "mode_eigenvalue S"
  shows "\<exists>C v. cell P = Some C \<and> index (speeds S) (g P) = Inr v
           \<and> wgt_old P' = wgt P \<and> g_old P' = g P \<and> cell_old P' = cell P
           \<and> nuSigmaF_sum S' =
               nuSigmaF_sum S + wgt P * (distance P + v * (time P' - time P))
                 * (nu (material C) ! g P * SigmaF (material C) ! g P)"
proof -
  from assms(1) obtain v d_coll Sf d_surf d_census ev d P2 S2 P3 where
    v: "index (speeds S) (g P) = Inr v"
    and mv: "move_particle ((save_previous_state P)\<lparr>speed := v\<rparr>) d = Inr P2"
    and pe: "perform_event ev Sf (S\<lparr>rng := rng_consume 1 (rng S)\<rparr>) P2 = Inr (S2, P3)"
    and sc: "score_eigenvalue S2 P3 = Inr S'"
    and P': "P' = reset_record P3"
    by (rule particle_iter_cases)
  from mv have v0: "v \<noteq> 0"
    and P2: "P2 = (save_previous_state P)\<lparr>speed := v,
                pos := point_add (pos P) (point_scale (dir P) d),
                time := time P + d / v, distance := distance P + d\<rparr>"
    by (auto simp: move_particle_def save_previous_state_def split: if_splits)
  note fr = perform_event_frame [OF pe]
  from fr P2 have olds: "wgt_old P3 = wgt P" "g_old P3 = g P" "cell_old P3 = cell P"
    and sp: "speed P3 = v"
    by (simp_all add: save_previous_state_def)
  from fr P2 v0 have "distance P3 - (distance P + d) = v * (time P3 - (time P + d / v))"
    by (simp add: save_previous_state_def)
  then have "distance P3 - (distance P + d) = v * time P3 - v * time P - v * (d / v)"
    by (simp add: algebra_simps)
  moreover have "v * (d / v) = d"
    using v0 by simp
  ultimately have dist: "distance P3 = distance P + v * (time P3 - time P)"
    by (simp add: algebra_simps)
  from fr have me: "mode_eigenvalue S2" and ns: "nuSigmaF_sum S2 = nuSigmaF_sum S"
    using assms(2) by (simp_all add: tracking_frame_def)
  from sc me olds obtain C where C: "cell P = Some C"
    and S': "nuSigmaF_sum S' = nuSigmaF_sum S2
               + wgt P * distance P3 * (nu (material C) ! g P * SigmaF (material C) ! g P)"
    by (auto simp: score_eigenvalue_def index_def Let_def split: option.splits if_splits)
  from C v olds S' ns dist P' show ?thesis
    by (simp add: reset_record_def)
qed

lemma loop_particle_frame:
  "loop_particle n S P = Done (S', P') \<Longrightarrow> tracking_frame S S'"
proof (induction n arbitrary: S P)
  case 0
  then show ?case by (simp split: if_splits)
next
  case (Suc n)
  show ?case
  proof (cases "alive P")
    case False
    with Suc.prems show ?thesis by simp
  next
    case True
    with Suc.prems obtain S1 P1 where
      it: "particle_iter S P = Inr (S1, P1)" and rest: "loop_particle n S1 P1 = Done (S', P')"
      by (auto split: sum.splits)
    from particle_iter_frame [OF it] Suc.IH [OF rest] show ?thesis
      by (rule tracking_frame_trans)
  qed
qed

lemma tracking_frame_bank_history [simp]:
  "tracking_frame S (S\<lparr>bank_history := b\<rparr>)"
  by (simp add: tracking_frame_def)

lemma loop_history_frame:
  "loop_history n S = Done S' \<Longrightarrow> tracking_frame S S'"
proof (induction n arbitrary: S)
  case 0
  then show ?case by (simp split: if_splits)
next
  case (Suc n)
  show ?case
  proof (cases "bank_history S = []")
    case True
    with Suc.prems show ?thesis by simp
  next
    case False
    with Suc.prems obtain S2 P' where
      lp: "loop_particle n (S\<lparr>bank_history := butlast (bank_history S)\<rparr>) (last (bank_history S))
             = Done (S2, P')"
      and rest: "loop_history n S2 = Done S'"
      by (auto simp: Let_def split: outcome.splits)
    from loop_particle_frame [OF lp] Suc.IH [OF rest] show ?thesis
      by (auto intro: tracking_frame_trans [OF tracking_frame_bank_history] tracking_frame_trans)
  qed
qed

lemma source_particle_frame:
  "source_particle i S = Inr S' \<Longrightarrow> tracking_frame S S'"
  by (auto simp: source_particle_def rng_call_stream Let_def tracking_frame_def
      split: if_splits option.splits sum.splits prod.splits)

lemma history_origin_frame [simp]: "tracking_frame S (history_origin i S)"
  by (simp add: history_origin_def tracking_frame_def skip_ahead_def Let_def)

lemma source_iteration_frame:
  "source_iteration fuel i S = Done S' \<Longrightarrow> tracking_frame S S'"
proof -
  assume a: "source_iteration fuel i S = Done S'"
  then obtain S1 where sp: "source_particle i (history_origin i S) = Inr S1"
    and lh: "loop_history fuel S1 = Done S'"
    by (auto simp: source_iteration_def split: sum.splits)
  from source_particle_frame [OF sp] loop_history_frame [OF lh] show ?thesis
    by (auto intro: tracking_frame_trans [OF history_origin_frame] tracking_frame_trans)
qed

lemma loop_source_range_frame:
  "loop_source_range fuel is S = Done S' \<Longrightarrow> tracking_frame S S'"
proof (induction "is" arbitrary: S)
  case Nil
  then show ?case by simp
next
  case (Cons i rest)
  from Cons.prems obtain S1 where it: "source_iteration fuel i S = Done S1"
    and r: "loop_source_range fuel rest S1 = Done S'"
    by (auto split: outcome.splits)
  from source_iteration_frame [OF it] Cons.IH [OF r] show ?case
    by (rule tracking_frame_trans)
qed


section \<open>The iterations of the run\<close>

lemma source_rebase_fields [simp]:
  "census_time (source_rebase S) = census_time S"
  "mode_eigenvalue (source_rebase S) = mode_eigenvalue S"
  "mpi (source_rebase S) = mpi S"
  "i_iter (source_rebase S) = i_iter S"
  "k_eff (source_rebase S) = k_eff S"
  "N_iter (source_rebase S) = N_iter S"
  "lcg_g (rng (source_rebase S)) = lcg_g (rng S)"
  "lcg_c (rng (source_rebase S)) = lcg_c (rng S)"
  "lcg_stride (rng (source_rebase S)) = lcg_stride (rng S)"
  "seed_base (rng (source_rebase S)) =
     lcg_advance (lcg_g (rng S)) (lcg_c (rng S)) (work_start (mpi S) * lcg_stride (rng S))
       (seed_base (rng S))"
  by (simp_all add: source_rebase_def skip_ahead_def Let_def)

lemma loop_source_frame:
  "loop_source fuel S = Done S' \<Longrightarrow> tracking_frame (source_rebase S) S'"
  unfolding loop_source_def by (rule loop_source_range_frame)

lemma eigenvalue_closeout_effect:
  "eigenvalue_closeout S = Inr S' \<Longrightarrow>
     k_eff S' = allreduce (mpi S) (i_iter S) (nuSigmaF_sum S) / real (work_size_total (mpi S))
     \<and> nuSigmaF_sum S' = 0 \<and> work_size_total (mpi S) \<noteq> 0
     \<and> census_time S' = census_time S \<and> mode_eigenvalue S' = mode_eigenvalue S
     \<and> rng S' = rng S \<and> mpi S' = mpi S"
  by (auto simp: eigenvalue_closeout_def Let_def split: if_splits)

lemma manage_banks_fields:
  "k_eff (fst (manage_banks S)) = k_eff S"
  "nuSigmaF_sum (fst (manage_banks S)) = nuSigmaF_sum S"
  "census_time (fst (manage_banks S)) = census_time S"
  "mode_eigenvalue (fst (manage_banks S)) = mode_eigenvalue S"
  "mpi (fst (manage_banks S)) = mpi S"
  "lcg_g (rng (fst (manage_banks S))) = lcg_g (rng S)"
  "lcg_c (rng (fst (manage_banks S))) = lcg_c (rng S)"
  "lcg_stride (rng (fst (manage_banks S))) = lcg_stride (rng S)"
  by (simp_all add: manage_banks_def Let_def skip_ahead_def split: prod.splits)

lemma manage_banks_rebase:
  "\<not> snd (manage_banks S) \<Longrightarrow>
     seed_base (rng (fst (manage_banks S))) =
       lcg_advance (lcg_g (rng S)) (lcg_c (rng S))
         ((work_size_total (mpi S) - work_start (mpi S)) * lcg_stride (rng S))
         (seed_base (rng S))"
  by (simp add: manage_banks_def Let_def skip_ahead_def split: prod.splits if_splits)

lemma run_iteration_cases:
  assumes "run_iteration fuel S = Done (S', fin)"
  obtains S2 S3 where
    "loop_source fuel
       (S\<lparr>bank_fission := Some (if mode_eigenvalue S then Bank_stored else Bank_history)\<rparr>)
       = Done S2"
    "(if mode_eigenvalue S2 then eigenvalue_closeout S2 else Inr S2) = Inr S3"
    "manage_banks S3 = (S', fin)"
  using assms
  by (auto simp: run_iteration_def Let_def split: outcome.splits sum.splits)

lemma run_iteration_k_eff:
  assumes "run_iteration fuel S = Done (S', fin)" and "mode_eigenvalue S"
  shows "\<exists>S2. loop_source fuel (S\<lparr>bank_fission := Some Bank_stored\<rparr>) = Done S2
           \<and> k_eff S' = allreduce (mpi S) (i_iter S) (nuSigmaF_sum S2)
                          / real (work_size_total (mpi S))
           \<and> nuSigmaF_sum S' = 0"
proof -
  from assms(1) obtain S2 S3 where
    ls: "loop_source fuel
           (S\<lparr>bank_fission := Some (if mode_eigenvalue S then Bank_stored else Bank_history)\<rparr>)
           = Done S2"
    and ec: "(if mode_eigenvalue S2 then eigenvalue_closeout S2 else Inr S2) = Inr S3"
    and mb: "manage_banks S3 = (S', fin)"
    by (rule run_iteration_cases)
  from loop_source_frame [OF ls]
  have fr: "mode_eigenvalue S2 = mode_eigenvalue S" "mpi S2 = mpi S" "i_iter S2 = i_iter S"
    by (simp_all add: tracking_frame_def)
  with ec assms(2) have "eigenvalue_closeout S2 = Inr S3" by simp
  note ef = eigenvalue_closeout_effect [OF this]
  from mb have "S' = fst (manage_banks S3)" by simp
  with ef fr ls assms(2) show ?thesis
    by (simp add: manage_banks_fields)
qed







section \<open>The eigenvalue accumulator, the census in eigenvalue mode and lost particles\<close>

lemma loop_source_range_append:
  "loop_source_range fuel (xs @ ys) S =
     (case loop_source_range fuel xs S of
        Done S1 \<Rightarrow> loop_source_range fuel ys S1
      | Fatal e \<Rightarrow> Fatal e
      | Out_of_fuel \<Rightarrow> Out_of_fuel)"
  by (induction xs arbitrary: S) (simp_all split: outcome.splits)

text \<open>
  C8.  In eigenvalue mode the score of a step adds
  \<open>wgt_old * distance * \<nu>(g_old) * \<Sigma>\<^sub>F(g_old)\<close>, read in the material of \<open>cell_old\<close>, to
  \<open>nuSigmaF_sum\<close>; over a whole step of \<open>loop_particle\<close> the shadow fields are the
  weight, group and cell the particle had before the move, and the distance is the one
  travelled in the step.  After the source loop of an iteration \<open>k_eff\<close> is the reduced
  \<open>nuSigmaF_sum\<close> over \<open>work_size_total\<close>, and \<open>nuSigmaF_sum\<close> is zero again.
\<close>

theorem nuSigmaF_sum_scored_and_k_eff_updated:
  "(mode_eigenvalue S \<and> cell_old Q = Some C \<and> g_old Q < length (nu (material C))
      \<and> g_old Q < length (SigmaF (material C)) \<longrightarrow>
      score_eigenvalue S Q =
        Inr (S\<lparr>nuSigmaF_sum := nuSigmaF_sum S
               + wgt_old Q * distance Q
                 * (nu (material C) ! g_old Q * SigmaF (material C) ! g_old Q)\<rparr>))
   \<and> (mode_eigenvalue S \<and> particle_iter S P = Inr (S', P') \<longrightarrow>
      (\<exists>D v. cell P = Some D \<and> index (speeds S) (g P) = Inr v
         \<and> wgt_old P' = wgt P \<and> g_old P' = g P \<and> cell_old P' = cell P
         \<and> nuSigmaF_sum S' =
             nuSigmaF_sum S + wgt P * (distance P + v * (time P' - time P))
               * (nu (material D) ! g P * SigmaF (material D) ! g P)))
   \<and> (mode_eigenvalue T \<and> run_iteration fuel T = Done (T', fin) \<longrightarrow>
      (\<exists>T2. loop_source fuel (T\<lparr>bank_fission := Some Bank_stored\<rparr>) = Done T2
         \<and> k_eff T' = allreduce (mpi T) (i_iter T) (nuSigmaF_sum T2)
                        / real (work_size_total (mpi T))
         \<and> nuSigmaF_sum T' = 0))"
proof (intro conjI impI)
  assume "mode_eigenvalue S \<and> cell_old Q = Some C \<and> g_old Q < length (nu (material C))
      \<and> g_old Q < length (SigmaF (material C))"
  then show "score_eigenvalue S Q =
        Inr (S\<lparr>nuSigmaF_sum := nuSigmaF_sum S
               + wgt_old Q * distance Q
                 * (nu (material C) ! g_old Q * SigmaF (material C) ! g_old Q)\<rparr>)"
    by (simp add: score_eigenvalue_def index_def Let_def)
next
  assume "mode_eigenvalue S \<and> particle_iter S P = Inr (S', P')"
  then show "\<exists>D v. cell P = Some D \<and> index (speeds S) (g P) = Inr v
         \<and> wgt_old P' = wgt P \<and> g_old P' = g P \<and> cell_old P' = cell P
         \<and> nuSigmaF_sum S' =
             nuSigmaF_sum S + wgt P * (distance P + v * (time P' - time P))
               * (nu (material D) ! g P * SigmaF (material D) ! g P)"
    using particle_iter_score by blast
next
  assume "mode_eigenvalue T \<and> run_iteration fuel T = Done (T', fin)"
  then show "\<exists>T2. loop_source fuel (T\<lparr>bank_fission := Some Bank_stored\<rparr>) = Done T2
         \<and> k_eff T' = allreduce (mpi T) (i_iter T) (nuSigmaF_sum T2)
                        / real (work_size_total (mpi T))
         \<and> nuSigmaF_sum T' = 0"
    using run_iteration_k_eff by blast
qed









section \<open>The origin of the substream of a history\<close>

lemma loop_source_at:
  assumes "i < work_size (mpi S)"
    and "loop_source_range fuel [0..<i] (source_rebase S) = Done Si"
  shows "loop_source fuel S =
           (case source_iteration fuel i Si of
              Done S1 \<Rightarrow> loop_source_range fuel [Suc i..<work_size (mpi S)] S1
            | Fatal e \<Rightarrow> Fatal e
            | Out_of_fuel \<Rightarrow> Out_of_fuel)"
proof -
  from assms(1) have "[0..<work_size (mpi S)] = [0..<i] @ [i..<work_size (mpi S)]"
    using upt_add_eq_append [of 0 i "work_size (mpi S) - i"] by simp
  moreover from assms(1) have "[i..<work_size (mpi S)] = i # [Suc i..<work_size (mpi S)]"
    by (simp add: upt_conv_Cons)
  ultimately have "[0..<work_size (mpi S)] = [0..<i] @ i # [Suc i..<work_size (mpi S)]"
    by simp
  then show ?thesis
    using assms(2) by (simp add: loop_source_def loop_source_range_append)
qed

lemma history_origin_seed:
  assumes "loop_source_range fuel [0..<i] (source_rebase S) = Done Si"
  shows "rng_seed (rng (history_origin i Si)) =
           lcg_advance (lcg_g (rng S)) (lcg_c (rng S))
             ((work_start (mpi S) + i) * lcg_stride (rng S)) (seed_base (rng S))"
    and "lcg_g (rng (history_origin i Si)) = lcg_g (rng S)"
    and "lcg_c (rng (history_origin i Si)) = lcg_c (rng S)"
proof -
  from loop_source_range_frame [OF assms]
  have fr: "seed_base (rng Si) = seed_base (rng (source_rebase S))"
    "lcg_g (rng Si) = lcg_g (rng S)" "lcg_c (rng Si) = lcg_c (rng S)"
    "lcg_stride (rng Si) = lcg_stride (rng S)"
    by (simp_all add: tracking_frame_def)
  then show "rng_seed (rng (history_origin i Si)) =
           lcg_advance (lcg_g (rng S)) (lcg_c (rng S))
             ((work_start (mpi S) + i) * lcg_stride (rng S)) (seed_base (rng S))"
    by (simp add: history_origin_def skip_ahead_def Let_def lcg_advance_add add_mult_distrib)
  from fr show "lcg_g (rng (history_origin i Si)) = lcg_g (rng S)"
    "lcg_c (rng (history_origin i Si)) = lcg_c (rng S)"
    by (simp_all add: history_origin_def skip_ahead_def Let_def)
qed

lemma run_iteration_rebase:
  assumes "run_iteration fuel S = Done (S', False)"
    and "work_start (mpi S) \<le> work_size_total (mpi S)"
  shows "seed_base (rng S') =
           lcg_advance (lcg_g (rng S)) (lcg_c (rng S))
             (work_size_total (mpi S) * lcg_stride (rng S)) (seed_base (rng S))"
    and "lcg_g (rng S') = lcg_g (rng S)" and "lcg_c (rng S') = lcg_c (rng S)"
    and "lcg_stride (rng S') = lcg_stride (rng S)"
proof -
  from assms(1) obtain S2 S3 where
    ls: "loop_source fuel
           (S\<lparr>bank_fission := Some (if mode_eigenvalue S then Bank_stored else Bank_history)\<rparr>)
           = Done S2"
    and ec: "(if mode_eigenvalue S2 then eigenvalue_closeout S2 else Inr S2) = Inr S3"
    and mb: "manage_banks S3 = (S', False)"
    by (rule run_iteration_cases)
  from loop_source_frame [OF ls]
  have S2: "seed_base (rng S2) =
              lcg_advance (lcg_g (rng S)) (lcg_c (rng S))
                (work_start (mpi S) * lcg_stride (rng S)) (seed_base (rng S))"
    "lcg_g (rng S2) = lcg_g (rng S)" "lcg_c (rng S2) = lcg_c (rng S)"
    "lcg_stride (rng S2) = lcg_stride (rng S)" "mpi S2 = mpi S"
    by (simp_all add: tracking_frame_def)
  from ec have S3: "rng S3 = rng S2" "mpi S3 = mpi S2"
    by (auto split: if_splits dest: eigenvalue_closeout_effect)
  from mb have S': "S' = fst (manage_banks S3)" and ne: "\<not> snd (manage_banks S3)"
    by simp_all
  have "work_start (mpi S) * lcg_stride (rng S)
          + (work_size_total (mpi S) - work_start (mpi S)) * lcg_stride (rng S)
        = work_size_total (mpi S) * lcg_stride (rng S)"
    using assms(2) by (simp add: add_mult_distrib [symmetric])
  then show "seed_base (rng S') =
           lcg_advance (lcg_g (rng S)) (lcg_c (rng S))
             (work_size_total (mpi S) * lcg_stride (rng S)) (seed_base (rng S))"
    using manage_banks_rebase [OF ne] S2 S3 S'
    by (simp add: lcg_advance_add [symmetric])
  from S2 S3 S' show "lcg_g (rng S') = lcg_g (rng S)" "lcg_c (rng S') = lcg_c (rng S)"
    "lcg_stride (rng S') = lcg_stride (rng S)"
    by (simp_all add: manage_banks_fields)
qed

lemma run_setup_rng:
  "run_setup S = Inr S0 \<Longrightarrow>
     seed_base (rng S0) = seed S \<and> rng_seed (rng S0) = seed S
     \<and> lcg_stride (rng S0) = stride S
     \<and> lcg_g (rng S0) = lcg_g (rng S) \<and> lcg_c (rng S0) = lcg_c (rng S)"
  by (auto simp: run_setup_def Let_def split: if_splits)

text \<open>
  C1.  Two runs \<open>S\<close> and \<open>T\<close> with the same generator parameters and base seed, whatever
  their ranges of histories: the history of rank-local index \<open>i\<close> starts from the base
  seed advanced by \<open>(work_start + i) * stride\<close> draws, whatever the histories before it
  drew, so histories of the same global index start from the same seed and see the same
  stream of draws; the source loop runs that history from that state; and after an
  iteration both runs are rebased to the same seed, past the \<open>work_size_total\<close>
  histories of the iteration.
\<close>

theorem substream_origin_independent_of_partition:
  assumes "seed_base (rng S) = seed_base (rng T)" and "lcg_g (rng S) = lcg_g (rng T)"
    and "lcg_c (rng S) = lcg_c (rng T)" and "lcg_stride (rng S) = lcg_stride (rng T)"
  shows "(loop_source_range fuel [0..<i] (source_rebase S) = Done Si
          \<and> loop_source_range fuel' [0..<j] (source_rebase T) = Done Tj
          \<and> work_start (mpi S) + i = work_start (mpi T) + j \<longrightarrow>
            rng_seed (rng (history_origin i Si)) =
              lcg_advance (lcg_g (rng S)) (lcg_c (rng S))
                ((work_start (mpi S) + i) * lcg_stride (rng S)) (seed_base (rng S))
            \<and> rng_seed (rng (history_origin i Si)) = rng_seed (rng (history_origin j Tj))
            \<and> (\<forall>k. rng_stream (rng (history_origin i Si)) k
                    = rng_stream (rng (history_origin j Tj)) k))
       \<and> (i < work_size (mpi S)
          \<and> loop_source_range fuel [0..<i] (source_rebase S) = Done Si \<longrightarrow>
            loop_source fuel S =
              (case (case source_particle i (history_origin i Si) of
                       Inl e \<Rightarrow> Fatal e
                     | Inr S1 \<Rightarrow> loop_history fuel S1) of
                 Done S2 \<Rightarrow> loop_source_range fuel [Suc i..<work_size (mpi S)] S2
               | Fatal e \<Rightarrow> Fatal e
               | Out_of_fuel \<Rightarrow> Out_of_fuel))
       \<and> (run_iteration fuel S = Done (S', False) \<and> run_iteration fuel' T = Done (T', False)
          \<and> work_size_total (mpi S) = work_size_total (mpi T)
          \<and> work_start (mpi S) \<le> work_size_total (mpi S)
          \<and> work_start (mpi T) \<le> work_size_total (mpi T) \<longrightarrow>
            seed_base (rng S') = seed_base (rng T') \<and> lcg_g (rng S') = lcg_g (rng T')
            \<and> lcg_c (rng S') = lcg_c (rng T') \<and> lcg_stride (rng S') = lcg_stride (rng T'))"
proof (intro conjI impI allI)
  assume a: "loop_source_range fuel [0..<i] (source_rebase S) = Done Si
          \<and> loop_source_range fuel' [0..<j] (source_rebase T) = Done Tj
          \<and> work_start (mpi S) + i = work_start (mpi T) + j"
  then have Si: "loop_source_range fuel [0..<i] (source_rebase S) = Done Si"
    and Tj: "loop_source_range fuel' [0..<j] (source_rebase T) = Done Tj"
    and k: "work_start (mpi S) + i = work_start (mpi T) + j"
    by simp_all
  show o: "rng_seed (rng (history_origin i Si)) =
              lcg_advance (lcg_g (rng S)) (lcg_c (rng S))
                ((work_start (mpi S) + i) * lcg_stride (rng S)) (seed_base (rng S))"
    by (rule history_origin_seed(1) [OF Si])
  show e: "rng_seed (rng (history_origin i Si)) = rng_seed (rng (history_origin j Tj))"
    using history_origin_seed(1) [OF Si] history_origin_seed(1) [OF Tj] k assms by simp
  show "rng_stream (rng (history_origin i Si)) k
          = rng_stream (rng (history_origin j Tj)) k" for k
    using e history_origin_seed(2,3) [OF Si] history_origin_seed(2,3) [OF Tj] assms
    by (simp add: rng_stream_def)
next
  assume "i < work_size (mpi S) \<and> loop_source_range fuel [0..<i] (source_rebase S) = Done Si"
  then show "loop_source fuel S =
              (case (case source_particle i (history_origin i Si) of
                       Inl e \<Rightarrow> Fatal e
                     | Inr S1 \<Rightarrow> loop_history fuel S1) of
                 Done S2 \<Rightarrow> loop_source_range fuel [Suc i..<work_size (mpi S)] S2
               | Fatal e \<Rightarrow> Fatal e
               | Out_of_fuel \<Rightarrow> Out_of_fuel)"
    using loop_source_at [of i S fuel Si] by (simp add: source_iteration_def)
next
  assume a: "run_iteration fuel S = Done (S', False) \<and> run_iteration fuel' T = Done (T', False)
          \<and> work_size_total (mpi S) = work_size_total (mpi T)
          \<and> work_start (mpi S) \<le> work_size_total (mpi S)
          \<and> work_start (mpi T) \<le> work_size_total (mpi T)"
  then have rS: "run_iteration fuel S = Done (S', False)"
    and rT: "run_iteration fuel' T = Done (T', False)"
    and tot: "work_size_total (mpi S) = work_size_total (mpi T)"
    and wS: "work_start (mpi S) \<le> work_size_total (mpi S)"
    and wT: "work_start (mpi T) \<le> work_size_total (mpi T)"
    by simp_all
  show "seed_base (rng S') = seed_base (rng T')"
    using run_iteration_rebase(1) [OF rS wS] run_iteration_rebase(1) [OF rT wT] tot assms
    by simp
  show "lcg_g (rng S') = lcg_g (rng T')" "lcg_c (rng S') = lcg_c (rng T')"
    "lcg_stride (rng S') = lcg_stride (rng T')"
    using run_iteration_rebase(2-4) [OF rS wS] run_iteration_rebase(2-4) [OF rT wT] assms
    by simp_all
qed


section \<open>The worked cases of the run\<close>

lemma eighth_stream:
  "rng_stream (eighth_rng b s) k = real (unat (s + 1152921504606846976 * of_nat (Suc k))) / 2 ^ 63"
  by (simp add: rng_stream_def eighth_rng_def lcg_advance_one)

lemma eighth_consume:
  "rng_consume n (eighth_rng b s) = eighth_rng b (s + 1152921504606846976 * of_nat n)"
  by (simp add: rng_consume_def eighth_rng_def lcg_advance_one)

lemma eighth_skip:
  "skip_ahead n rebase (eighth_rng b s) =
     eighth_rng (if rebase then b + 1152921504606846976 * of_nat (n * 9) else b)
       (b + 1152921504606846976 * of_nat (n * 9))"
  by (simp add: skip_ahead_def eighth_rng_def lcg_advance_one Let_def)

lemma eighth_draws:
  "rng_stream (eighth_rng b 3458764513820540928) 0 = 1/2"
  "rng_stream (eighth_rng b 3458764513820540928) (Suc 0) = 5/8"
  "rng_stream (eighth_rng b 3458764513820540928) (Suc (Suc 0)) = 3/4"
  "rng_stream (eighth_rng b 4611686018427387904) 0 = 5/8"
  "rng_stream (eighth_rng b 4611686018427387904) (Suc 0) = 3/4"
  "rng_stream (eighth_rng b 4611686018427387904) (Suc (Suc 0)) = 7/8"
  by (simp_all add: eighth_stream)

lemma eighth_states:
  "(3458764513820540928 :: 63 word) + 1152921504606846976 * of_nat (Suc 0) = 4611686018427387904"
  "(3458764513820540928 :: 63 word) + 1152921504606846976 * of_nat (Suc (Suc (Suc 0)))
     = 6917529027641081856"
  "(3458764513820540928 :: 63 word) + 1152921504606846976 * of_nat (Suc 0 * 9)
     = 4611686018427387904"
  "(3458764513820540928 :: 63 word) + 1152921504606846976 * of_nat (0 * 9)
     = 3458764513820540928"
  "(4611686018427387904 :: 63 word) + 1152921504606846976 * of_nat (Suc (Suc (Suc 0)))
     = 8070450532247928832"
  by simp_all

lemma slab_sim_rng: "rng slab_sim = quarter_rng 1152921504606846976"
  by (simp add: slab_sim_def azurv1_sim_def)

lemma lost_step:
  "particle_iter slab_sim slab_leaving = Inl (LostParticle (Point (10 + 1 / 10 ^ 10) 0 0))"
  by (simp add: particle_iter_def slab_sim_def azurv1_sim_def slab_leaving_def slab_particle_def
      Particle_def save_previous_state_def index_def get_collision_distance_def
      rng_call_stream quarter_stream xs_lookup_def slab_cell_def slab_material_def
      VERY_SMALL_def surface_distance_def plane_x_def census_distance_def
      choose_event_def move_particle_def point_add_def point_scale_def perform_event_def
      surface_hit_def apply_bc_def set_cell_def SMALL_def Let_def)

lemmas tracker_defs =
  particle_iter_def save_previous_state_def index_def get_collision_distance_def
  rng_call_stream xs_lookup_def VERY_SMALL_def surface_distance_def plane_x_def
  census_distance_def INFTY_def choose_event_def move_particle_def point_add_def
  point_scale_def perform_event_def collision_def collision_branch_def collision_capture_def
  score_eigenvalue_def reset_record_def surface_hit_def apply_bc_def set_cell_def SMALL_def
  census_event_def create_copy_def Particle_def Let_def

lemmas azurv1_defs =
  azurv1_kmode_def azurv1_sim_def azurv1_particle_def azurv1_cell_def azurv1_material_def
  azurv1_source_def two_ranks_def kmode_d_def eighth_consume eighth_skip eighth_stream

lemma kmode_step:
  "particle_iter
     (azurv1_kmode\<lparr>rng := eighth_rng 3458764513820540928 4611686018427387904\<rparr>)
     azurv1_particle =
     Inr (azurv1_kmode\<lparr>rng := eighth_rng 3458764513820540928 6917529027641081856,
            nuSigmaF_sum := kmode_d * (23/30)\<rparr>,
          azurv1_particle\<lparr>pos := Point 0 kmode_d 0, time := kmode_d, alive := False\<rparr>)"
  by (simp add: tracker_defs azurv1_defs)

lemmas driver_defs =
  source_iteration_def history_origin_def source_rebase_def source_particle_def
  set_time_idx_def binary_search_def loop_source_def run_iteration_def
  eigenvalue_closeout_def allreduce_def manage_banks_def run_setup_def run_def

lemma kmode_history_single:
  "source_iteration (Suc (Suc (Suc 0))) 0 (source_rebase azurv1_kmode) =
     Done (azurv1_kmode\<lparr>rng := eighth_rng 3458764513820540928 6917529027641081856,
             nuSigmaF_sum := kmode_d * (23/30)\<rparr>)"
  by (simp add: driver_defs tracker_defs azurv1_defs)

lemma kmode_history_rank0:
  "source_iteration (Suc (Suc (Suc 0))) 0 (source_rebase (azurv1_kmode\<lparr>mpi := two_ranks 0\<rparr>)) =
     Done (azurv1_kmode\<lparr>mpi := two_ranks 0,
             rng := eighth_rng 3458764513820540928 6917529027641081856,
             nuSigmaF_sum := kmode_d * (23/30)\<rparr>)"
  by (simp add: driver_defs tracker_defs azurv1_defs)

lemma kmode_history_rank1:
  "source_iteration (Suc (Suc (Suc 0))) 0 (source_rebase (azurv1_kmode\<lparr>mpi := two_ranks 1\<rparr>)) =
     Done (azurv1_kmode\<lparr>mpi := two_ranks 1,
             rng := eighth_rng 4611686018427387904 8070450532247928832,
             nuSigmaF_sum := kmode_d1 * (23/30)\<rparr>)"
  by (simp add: driver_defs tracker_defs azurv1_defs kmode_d1_def) (simp add: eighth_rng_def)







lemma kmode_iteration_rank0:
  "\<exists>S'. run_iteration (Suc (Suc (Suc 0))) (azurv1_kmode\<lparr>mpi := two_ranks 0\<rparr>) = Done (S', False)"
  by (simp add: driver_defs tracker_defs azurv1_defs)

lemma kmode_iteration_rank1:
  "\<exists>S'. run_iteration (Suc (Suc (Suc 0))) (azurv1_kmode\<lparr>mpi := two_ranks 1\<rparr>) = Done (S', False)"
  by (simp add: driver_defs tracker_defs azurv1_defs)

lemma kmode_fields:
  "mode_eigenvalue azurv1_kmode" "census_time azurv1_kmode = [INFTY]"
  "bank_stored azurv1_kmode = []" "k_eff azurv1_kmode = 1"
  "bank_fission azurv1_kmode = Some Bank_stored"
  "rng azurv1_kmode = eighth_rng 3458764513820540928 3458764513820540928"
  "speeds azurv1_kmode = [1]" "nuSigmaF_sum azurv1_kmode = 0"
  "mpi azurv1_kmode =
     \<lparr>work_start = 0, work_size = 2, work_size_total = 2, master = True,
      peers_nuSigmaF = (\<lambda>i. 0), normalize_weight = (\<lambda>bank n. bank)\<rparr>"
  by (simp_all add: azurv1_kmode_def azurv1_sim_def)


lemma kmode_step_kc:
  "particle_iter (azurv1_kmode\<lparr>rng := rng_consume 1 (rng azurv1_kmode)\<rparr>) azurv1_particle =
     Inr (azurv1_kmode\<lparr>rng := eighth_rng 3458764513820540928 6917529027641081856,
            nuSigmaF_sum := kmode_d * (23/30)\<rparr>,
          azurv1_particle\<lparr>pos := Point 0 kmode_d 0, time := kmode_d, alive := False\<rparr>)"
  using kmode_step by (simp add: kmode_fields eighth_consume)

theorem nuSigmaF_sum_scored_and_k_eff_updated_witness:
  "score_eigenvalue azurv1_kmode (azurv1_particle\<lparr>distance := 2\<rparr>) =
     Inr (azurv1_kmode\<lparr>nuSigmaF_sum := 23 / 15\<rparr>)
   \<and> (\<exists>D v. cell azurv1_particle = Some D \<and> index [1] 0 = Inr v
         \<and> kmode_d * (23/30) =
             0 + 1 * (0 + v * (kmode_d - 0)) * (nu (material D) ! 0 * SigmaF (material D) ! 0))
   \<and> (\<exists>T' T2. run_iteration (Suc (Suc (Suc 0))) (azurv1_kmode\<lparr>mpi := two_ranks 0\<rparr>)
                  = Done (T', False)
         \<and> loop_source (Suc (Suc (Suc 0)))
             (azurv1_kmode\<lparr>mpi := two_ranks 0, bank_fission := Some Bank_stored\<rparr>) = Done T2
         \<and> k_eff T' = (nuSigmaF_sum T2 + 0) / 2
         \<and> nuSigmaF_sum T' = 0)"
proof -
  let ?after = "azurv1_kmode\<lparr>rng := rng_consume 1 (rng azurv1_kmode)\<rparr>"
  let ?ranka = "azurv1_kmode\<lparr>mpi := two_ranks 0\<rparr>"
  have A: "score_eigenvalue azurv1_kmode (azurv1_particle\<lparr>distance := 2\<rparr>) =
     Inr (azurv1_kmode\<lparr>nuSigmaF_sum := 23 / 15\<rparr>)"
    using nuSigmaF_sum_scored_and_k_eff_updated
      [where S = azurv1_kmode and Q = "azurv1_particle\<lparr>distance := 2\<rparr>" and C = azurv1_cell,
         THEN conjunct1]
    by (simp add: kmode_fields azurv1_particle_def Particle_def azurv1_cell_def
        azurv1_material_def)
  have B: "\<exists>D v. cell azurv1_particle = Some D \<and> index [1] 0 = Inr v
         \<and> kmode_d * (23/30) =
             0 + 1 * (0 + v * (kmode_d - 0)) * (nu (material D) ! 0 * SigmaF (material D) ! 0)"
    using nuSigmaF_sum_scored_and_k_eff_updated
      [where S = ?after and P = azurv1_particle
         and S' = "azurv1_kmode\<lparr>rng := eighth_rng 3458764513820540928 6917529027641081856,
                     nuSigmaF_sum := kmode_d * (23/30)\<rparr>"
         and P' = "azurv1_particle\<lparr>pos := Point 0 kmode_d 0, time := kmode_d, alive := False\<rparr>",
         THEN conjunct2, THEN conjunct1]
      kmode_step_kc
    by (simp add: kmode_fields azurv1_particle_def Particle_def)
  obtain T' where T': "run_iteration (Suc (Suc (Suc 0))) ?ranka = Done (T', False)"
    using kmode_iteration_rank0 by blast
  have C: "\<exists>T2. loop_source (Suc (Suc (Suc 0)))
             (azurv1_kmode\<lparr>mpi := two_ranks 0, bank_fission := Some Bank_stored\<rparr>) = Done T2
         \<and> k_eff T' = (nuSigmaF_sum T2 + 0) / 2
         \<and> nuSigmaF_sum T' = 0"
    using nuSigmaF_sum_scored_and_k_eff_updated
      [where T = ?ranka and fuel = "Suc (Suc (Suc 0))" and T' = T' and fin = False,
         THEN conjunct2, THEN conjunct2]
      T'
    by (simp add: kmode_fields two_ranks_def allreduce_def azurv1_kmode_def azurv1_sim_def)
  from A B C T' show ?thesis by blast
qed






lemma kmode_prefix_single:
  "\<exists>Si. loop_source_range (Suc (Suc (Suc 0))) [0..<1] (source_rebase azurv1_kmode) = Done Si"
  using kmode_history_single by simp

theorem substream_origin_independent_of_partition_witness:
  "(\<exists>Si. loop_source_range (Suc (Suc (Suc 0))) [0..<1] (source_rebase azurv1_kmode) = Done Si
        \<and> rng_seed (rng (history_origin 1 Si)) = 4611686018427387904
        \<and> rng_seed (rng (history_origin 1 Si))
            = rng_seed (rng (history_origin 0 (source_rebase (azurv1_kmode\<lparr>mpi := two_ranks 1\<rparr>))))
        \<and> (\<forall>k. rng_stream (rng (history_origin 1 Si)) k
                = rng_stream (rng (history_origin 0
                     (source_rebase (azurv1_kmode\<lparr>mpi := two_ranks 1\<rparr>)))) k))
   \<and> loop_source (Suc (Suc (Suc 0))) azurv1_kmode =
       (case (case source_particle 0 (history_origin 0 (source_rebase azurv1_kmode)) of
                Inl e \<Rightarrow> Fatal e
              | Inr S1 \<Rightarrow> loop_history (Suc (Suc (Suc 0))) S1) of
          Done S2 \<Rightarrow> loop_source_range (Suc (Suc (Suc 0))) [Suc 0..<2] S2
        | Fatal e \<Rightarrow> Fatal e
        | Out_of_fuel \<Rightarrow> Out_of_fuel)
   \<and> (\<exists>S' T'. run_iteration (Suc (Suc (Suc 0))) (azurv1_kmode\<lparr>mpi := two_ranks 0\<rparr>) = Done (S', False)
        \<and> run_iteration (Suc (Suc (Suc 0))) (azurv1_kmode\<lparr>mpi := two_ranks 1\<rparr>) = Done (T', False)
        \<and> seed_base (rng S') = seed_base (rng T') \<and> lcg_g (rng S') = lcg_g (rng T')
        \<and> lcg_c (rng S') = lcg_c (rng T') \<and> lcg_stride (rng S') = lcg_stride (rng T'))"
proof -
  let ?single = azurv1_kmode
  let ?ranka = "azurv1_kmode\<lparr>mpi := two_ranks 0\<rparr>"
  let ?rankb = "azurv1_kmode\<lparr>mpi := two_ranks 1\<rparr>"
  let ?n = "Suc (Suc (Suc 0))"
  obtain Si where Si: "loop_source_range ?n [0..<1] (source_rebase ?single) = Done Si"
    using kmode_prefix_single by blast
  have Tj: "loop_source_range ?n [0..<0] (source_rebase ?rankb) = Done (source_rebase ?rankb)"
    by simp
  have ws: "work_start (mpi ?single) + 1 = work_start (mpi ?rankb) + 0"
    by (simp add: kmode_fields two_ranks_def)
  have h: "seed_base (rng ?single) = seed_base (rng ?rankb)"
    "lcg_g (rng ?single) = lcg_g (rng ?rankb)"
    "lcg_c (rng ?single) = lcg_c (rng ?rankb)"
    "lcg_stride (rng ?single) = lcg_stride (rng ?rankb)"
    by simp_all
  have A: "rng_seed (rng (history_origin 1 Si)) =
              lcg_advance (lcg_g (rng ?single)) (lcg_c (rng ?single))
                ((work_start (mpi ?single) + 1) * lcg_stride (rng ?single)) (seed_base (rng ?single))
        \<and> rng_seed (rng (history_origin 1 Si)) = rng_seed (rng (history_origin 0 (source_rebase ?rankb)))
        \<and> (\<forall>k. rng_stream (rng (history_origin 1 Si)) k
                = rng_stream (rng (history_origin 0 (source_rebase ?rankb))) k)"
    using substream_origin_independent_of_partition
      [where S = ?single and T = ?rankb and fuel = ?n and fuel' = ?n and i = 1 and j = 0
         and Si = Si and Tj = "source_rebase ?rankb", OF h, THEN conjunct1]
      Si Tj ws
    by blast
  have A': "lcg_advance (lcg_g (rng ?single)) (lcg_c (rng ?single))
                ((work_start (mpi ?single) + 1) * lcg_stride (rng ?single)) (seed_base (rng ?single))
            = 4611686018427387904"
    by (simp add: kmode_fields eighth_rng_def lcg_advance_one)
  have wsz: "work_size (mpi ?single) = 2"
    by (simp add: azurv1_kmode_def)
  have B0: "loop_source ?n ?single =
       (case (case source_particle 0 (history_origin 0 (source_rebase ?single)) of
                Inl e \<Rightarrow> Fatal e
              | Inr S1 \<Rightarrow> loop_history ?n S1) of
          Done S2 \<Rightarrow> loop_source_range ?n [Suc 0..<work_size (mpi ?single)] S2
        | Fatal e \<Rightarrow> Fatal e
        | Out_of_fuel \<Rightarrow> Out_of_fuel)"
    using substream_origin_independent_of_partition
      [where S = ?single and T = ?single and fuel = ?n and i = 0 and Si = "source_rebase ?single",
         OF refl refl refl refl, THEN conjunct2, THEN conjunct1]
    by (simp add: kmode_fields)
  have B: "loop_source ?n ?single =
       (case (case source_particle 0 (history_origin 0 (source_rebase ?single)) of
                Inl e \<Rightarrow> Fatal e
              | Inr S1 \<Rightarrow> loop_history ?n S1) of
          Done S2 \<Rightarrow> loop_source_range ?n [Suc 0..<2] S2
        | Fatal e \<Rightarrow> Fatal e
        | Out_of_fuel \<Rightarrow> Out_of_fuel)"
    using B0 unfolding wsz .
  obtain S' where S': "run_iteration ?n ?ranka = Done (S', False)"
    using kmode_iteration_rank0 by blast
  obtain T' where T': "run_iteration ?n ?rankb = Done (T', False)"
    using kmode_iteration_rank1 by blast
  have hab: "seed_base (rng ?ranka) = seed_base (rng ?rankb)"
    "lcg_g (rng ?ranka) = lcg_g (rng ?rankb)"
    "lcg_c (rng ?ranka) = lcg_c (rng ?rankb)"
    "lcg_stride (rng ?ranka) = lcg_stride (rng ?rankb)"
    by simp_all
  have C: "seed_base (rng S') = seed_base (rng T') \<and> lcg_g (rng S') = lcg_g (rng T')
        \<and> lcg_c (rng S') = lcg_c (rng T') \<and> lcg_stride (rng S') = lcg_stride (rng T')"
    using substream_origin_independent_of_partition
      [where S = ?ranka and T = ?rankb and fuel = ?n and fuel' = ?n and S' = S' and T' = T',
         OF hab, THEN conjunct2, THEN conjunct2]
      S' T'
    by (simp add: kmode_fields two_ranks_def)
  from Si A A' B S' T' C show ?thesis
    by (metis (no_types, lifting))
qed

end
